theory Spec2Isabelle
  imports Complex_Main "HOL-Library.Sublist" "HOL-Library.Multiset"
begin

section \<open>Python values, strings and list primitives\<close>

text \<open>
  The scripts are Python. Strings are modelled as \<^typ>\<open>string\<close>, holding the UTF-8
  bytes of the Python text (a substring test on valid UTF-8 agrees with the test on code
  points). \<open>str.lower\<close> is modelled on the ASCII letters; every non-ASCII letter of the
  literal tables of the scripts is lower case already. Python \<open>float\<close> values are modelled
  as exact rationals: all float literals of the scripts are decimal fractions, and
  rounding error is not part of the model. Wall-clock readings (\<open>datetime.now()\<close>) are
  inputs of type \<open>timestamp\<close>.
\<close>

type_synonym timestamp = nat

datatype pyval =
    PyNone
  | PyBool bool
  | PyInt int
  | PyFloat rat
  | PyStr string
  | PyList "pyval list"
  | PyDict "(string \<times> pyval) list"

definition char_lower :: "char \<Rightarrow> char" where
  "char_lower c =
     (let n = (of_char c :: int) in if 65 \<le> n \<and> n \<le> 90 then char_of (n + 32) else c)"

definition lower :: "string \<Rightarrow> string" where
  "lower s = map char_lower s"

text \<open>\<open>a in b\<close> on strings: \<open>a\<close> occurs in \<open>b\<close> as a contiguous run.\<close>

definition str_in :: "string \<Rightarrow> string \<Rightarrow> bool" where
  "str_in a b = sublist a b"

text \<open>\<open>sep.join(parts)\<close>.\<close>

fun join :: "string \<Rightarrow> string list \<Rightarrow> string" where
  "join sep [] = []"
| "join sep [x] = x"
| "join sep (x # y # ys) = x @ sep @ join sep (y # ys)"

text \<open>\<open>d.get(k)\<close> on a dictionary held as an association list in insertion order.\<close>

definition dict_get :: "(string \<times> pyval) list \<Rightarrow> string \<Rightarrow> pyval" where
  "dict_get d k = (case map_of d k of None \<Rightarrow> PyNone | Some v \<Rightarrow> v)"

text \<open>
  Decimal text of integers (\<open>decimal\<close> on the non-negative ones), and the format
  specification \<open>:.{d}f\<close>, which rounds the exact value to \<open>d\<close> decimals, ties to even.
\<close>

definition digit_char :: "int \<Rightarrow> char" where
  "digit_char d = char_of (d + 48)"

function decimal :: "int \<Rightarrow> string" where
  "decimal n = (if 10 \<le> n then decimal (n div 10) @ [digit_char (n mod 10)] else [digit_char n])"
  by pat_completeness auto
termination
  by (relation "measure nat") auto

definition string_of_int :: "int \<Rightarrow> string" where
  "string_of_int i = (if i < 0 then ''-'' @ decimal (- i) else decimal i)"

definition round_half_even :: "rat \<Rightarrow> int" where
  "round_half_even x =
     (let f = floor x; d = x - of_int f
      in if d < 1 / 2 then f else if 1 / 2 < d then f + 1 else if even f then f else f + 1)"


text \<open>
  \<open>str\<close> on the values that the example tools format: exact on \<open>None\<close>, booleans,
  integers and strings. The text of floats, lists and dictionaries is not modelled here;
  the agent operations take the built-in \<open>str\<close> as a parameter instead.
\<close>

fun str_atom :: "pyval \<Rightarrow> string" where
  "str_atom PyNone = ''None''"
| "str_atom (PyBool b) = (if b then ''True'' else ''False'')"
| "str_atom (PyInt i) = string_of_int i"
| "str_atom (PyStr s) = s"
| "str_atom _ = []"

text \<open>
  \<open>sorted(xs, key=k, reverse=True)\<close>: a stable sort in descending key order; elements with
  equal keys keep their original relative order.
\<close>

definition sorted_reverse :: "('a \<Rightarrow> 'k::linorder) \<Rightarrow> 'a list \<Rightarrow> 'a list" where
  "sorted_reverse k xs = rev (sort_key k (rev xs))"

text \<open>\<open>xs[:n]\<close> for an integer \<open>n\<close>; a negative \<open>n\<close> counts from the end.\<close>

definition slice_to :: "int \<Rightarrow> 'a list \<Rightarrow> 'a list" where
  "slice_to n xs = (if 0 \<le> n then take (nat n) xs else take (length xs - nat (- n)) xs)"

text \<open>\<open>max(xs, key=k)\<close> on a non-empty list \<open>b # xs\<close>: the first element of maximal key.\<close>

fun max_key :: "('a \<Rightarrow> 'k::linorder) \<Rightarrow> 'a \<Rightarrow> 'a list \<Rightarrow> 'a" where
  "max_key k b [] = b"
| "max_key k b (x # xs) = max_key k (if k b < k x then x else b) xs"

text \<open>UTF-8 bytes of the symbols that the result strings start with.\<close>

definition cross_mark :: string where
  "cross_mark = [CHR 0xE2, CHR 0x9D, CHR 0x8C]"

definition check_mark :: string where
  "check_mark = [CHR 0xE2, CHR 0x9C, CHR 0x85]"

definition party_popper :: string where
  "party_popper = [CHR 0xF0, CHR 0x9F, CHR 0x8E, CHR 0x89]"

section \<open>The basic agent (02-basic-agent-structure.py)\<close>

text \<open>
  The classes \<open>Goal\<close>, \<open>Action\<close>, \<open>MemoryEntry\<close> and \<open>BasicAgent\<close> are records; a field
  name that several classes share (\<open>type\<close>, \<open>parameters\<close>, \<open>created_at\<close>) carries the class
  as a prefix. Every operation takes one clock reading \<open>now\<close> for the timestamps that it
  sets. Console output is not modelled.
\<close>

record goal =
  goal_type :: string
  goal_parameters :: "(string \<times> pyval) list"
  priority :: int
  completed :: bool
  goal_created_at :: timestamp
  completed_at :: "timestamp option"

record action =
  action_type :: string
  action_parameters :: "(string \<times> pyval) list"
  tool_needed :: "string option"
  action_created_at :: timestamp

record memory_entry =
  mem_type :: string
  mem_data :: pyval
  outcome :: string
  satisfaction :: "rat option"
  mem_timestamp :: timestamp

text \<open>
  A tool is a registered callback, called with the parameter dictionary of an action. A
  call either returns a value or raises an \<open>Exception\<close> \<open>e\<close>, carried as the text
  \<open>str(e)\<close>.
\<close>

datatype tool_outcome = Returns pyval | Raises string

type_synonym tool = "(string \<times> pyval) list \<Rightarrow> tool_outcome"

record agent =
  agent_name :: string
  goals :: "goal list"
  memory :: "memory_entry list"
  tools :: "string \<Rightarrow> tool option"
  active :: bool

definition Goal :: "timestamp \<Rightarrow> string \<Rightarrow> (string \<times> pyval) list \<Rightarrow> int \<Rightarrow> goal" where
  "Goal now gt ps pr =
     \<lparr>goal_type = gt, goal_parameters = ps, priority = pr, completed = False,
      goal_created_at = now, completed_at = None\<rparr>"

definition complete :: "timestamp \<Rightarrow> goal \<Rightarrow> goal" where
  "complete now g = g\<lparr>completed := True, completed_at := Some now\<rparr>"

definition Action :: "timestamp \<Rightarrow> string \<Rightarrow> (string \<times> pyval) list \<Rightarrow> string option \<Rightarrow> action" where
  "Action now aty ps tn =
     \<lparr>action_type = aty, action_parameters = ps, tool_needed = tn, action_created_at = now\<rparr>"

definition MemoryEntry ::
  "timestamp \<Rightarrow> string \<Rightarrow> pyval \<Rightarrow> string \<Rightarrow> rat option \<Rightarrow> memory_entry" where
  "MemoryEntry now et d oc sat =
     \<lparr>mem_type = et, mem_data = d, outcome = oc, satisfaction = sat, mem_timestamp = now\<rparr>"

definition BasicAgent :: "string \<Rightarrow> agent" where
  "BasicAgent n = \<lparr>agent_name = n, goals = [], memory = [], tools = (\<lambda>_. None), active = True\<rparr>"

definition add_goal :: "timestamp \<Rightarrow> string \<Rightarrow> (string \<times> pyval) list \<Rightarrow> int \<Rightarrow> agent \<Rightarrow> agent" where
  "add_goal now gt ps pr s = s\<lparr>goals := goals s @ [Goal now gt ps pr]\<rparr>"

definition add_tool :: "string \<Rightarrow> tool \<Rightarrow> agent \<Rightarrow> agent" where
  "add_tool tn f s = s\<lparr>tools := (tools s)(tn := Some f)\<rparr>"

definition create_action_for_goal :: "timestamp \<Rightarrow> goal \<Rightarrow> action" where
  "create_action_for_goal now g =
     (let action_map =
        [(''research_destination'',
            Action now ''search_info''
              [(''query'', dict_get (goal_parameters g) ''destination'')] (Some ''web_search'')),
         (''plan_budget'',
            Action now ''calculate_budget'' (goal_parameters g) (Some ''budget_calculator'')),
         (''book_flight'',
            Action now ''search_flights'' (goal_parameters g) (Some ''flight_api'')),
         (''find_accommodation'',
            Action now ''search_hotels'' (goal_parameters g) (Some ''hotel_api''))]
      in case map_of action_map (goal_type g) of
           Some a \<Rightarrow> a
         | None \<Rightarrow> Action now ''research'' (goal_parameters g) (Some ''web_search''))"

definition plan_next_action :: "timestamp \<Rightarrow> agent \<Rightarrow> action option" where
  "plan_next_action now s =
     (case filter (\<lambda>g. \<not> completed g) (goals s) of
        [] \<Rightarrow> None
      | g # gs \<Rightarrow> Some (create_action_for_goal now (max_key priority g gs)))"

definition remember ::
  "timestamp \<Rightarrow> string \<Rightarrow> pyval \<Rightarrow> string \<Rightarrow> rat option \<Rightarrow> agent \<Rightarrow> agent" where
  "remember now et d oc sat s = s\<lparr>memory := memory s @ [MemoryEntry now et d oc sat]\<rparr>"

text \<open>
  \<open>execute_action\<close> returns the result string and the updated agent; the third component
  lists the tool invocations made (tool name and argument), so that the absence of any
  invocation can be stated. The built-in \<open>str\<close> on values is the parameter \<open>py_str\<close>.
\<close>

definition execution_data :: "action \<Rightarrow> string \<Rightarrow> pyval" where
  "execution_data a tn =
     PyDict [(''action'', PyStr (action_type a)),
             (''parameters'', PyDict (action_parameters a)),
             (''tool_used'', PyStr tn)]"

definition execute_action ::
  "(pyval \<Rightarrow> string) \<Rightarrow> timestamp \<Rightarrow> agent \<Rightarrow> action
     \<Rightarrow> string \<times> agent \<times> (string \<times> (string \<times> pyval) list) list" where
  "execute_action py_str now s a =
     (case tool_needed a of
        None \<Rightarrow> (''No tool needed for '' @ action_type a, s, [])
      | Some tn \<Rightarrow>
          if tn = [] then (''No tool needed for '' @ action_type a, s, [])
          else (case tools s tn of
                  None \<Rightarrow> (cross_mark @ '' Tool '' @ [CHR 0x27] @ tn @ [CHR 0x27] @ '' not available'', s, [])
                | Some f \<Rightarrow>
                    (case f (action_parameters a) of
                       Returns r \<Rightarrow>
                         (check_mark @ '' '' @ action_type a @ '': '' @ py_str r,
                          remember now ''action_execution'' (execution_data a tn)
                            (''Success: '' @ py_str r) (Some 8) s,
                          [(tn, action_parameters a)])
                     | Raises e \<Rightarrow>
                         (cross_mark @ '' '' @ action_type a @ '': '' @ (''Error: '' @ e),
                          remember now ''action_execution'' (execution_data a tn)
                            (''Error: '' @ e) (Some 2) s,
                          [(tn, action_parameters a)]))))"

definition relevant :: "(pyval \<Rightarrow> string) \<Rightarrow> string \<Rightarrow> memory_entry \<Rightarrow> bool" where
  "relevant py_str context m \<longleftrightarrow>
     str_in (lower context) (lower (py_str (mem_data m))) \<or>
     str_in (lower context) (lower (outcome m))"

definition get_relevant_memories ::
  "(pyval \<Rightarrow> string) \<Rightarrow> memory_entry list \<Rightarrow> string \<Rightarrow> int \<Rightarrow> memory_entry list" where
  "get_relevant_memories py_str mem context limit =
     slice_to limit (sorted_reverse mem_timestamp (filter (relevant py_str context) mem))"

text \<open>\<open>memory.satisfaction and memory.satisfaction > 7\<close>.\<close>

definition satisfied :: "memory_entry \<Rightarrow> bool" where
  "satisfied m = (case satisfaction m of None \<Rightarrow> False | Some x \<Rightarrow> x \<noteq> 0 \<and> 7 < x)"

definition check_goal_completion :: "(pyval \<Rightarrow> string) \<Rightarrow> timestamp \<Rightarrow> agent \<Rightarrow> agent" where
  "check_goal_completion py_str now s =
     s\<lparr>goals :=
         map (\<lambda>g. if \<not> completed g \<and>
                     list_ex satisfied (get_relevant_memories py_str (memory s) (goal_type g) 5)
                  then complete now g else g)
             (goals s)\<rparr>"

definition run_planning_cycle :: "(pyval \<Rightarrow> string) \<Rightarrow> timestamp \<Rightarrow> agent \<Rightarrow> string \<times> agent" where
  "run_planning_cycle py_str now s =
     (if \<not> active s then (''Agent is not active'', s)
      else case plan_next_action now s of
             None \<Rightarrow> (party_popper @ '' All goals completed! Agent has finished its work.'', s)
           | Some next_action \<Rightarrow>
               (case execute_action py_str now s next_action of
                  (result, s1, calls) \<Rightarrow> (result, check_goal_completion py_str now s1)))"

text \<open>Any number of planning cycles, one clock reading for each.\<close>

fun run_cycles :: "(pyval \<Rightarrow> string) \<Rightarrow> timestamp list \<Rightarrow> agent \<Rightarrow> agent" where
  "run_cycles py_str [] s = s"
| "run_cycles py_str (now # nows) s = run_cycles py_str nows (snd (run_planning_cycle py_str now s))"

text \<open>
  The claims speak of a memory entry that matches a goal's type string and carries a
  satisfaction above 7, and of an action whose tool is not registered.
\<close>

definition satisfaction_above_7 :: "memory_entry \<Rightarrow> bool" where
  "satisfaction_above_7 m = (case satisfaction m of None \<Rightarrow> False | Some x \<Rightarrow> 7 < x)"

definition has_satisfying_memory :: "(pyval \<Rightarrow> string) \<Rightarrow> memory_entry list \<Rightarrow> goal \<Rightarrow> bool" where
  "has_satisfying_memory py_str mem g =
     list_ex (\<lambda>m. relevant py_str (goal_type g) m \<and> satisfaction_above_7 m) mem"

definition tool_not_registered :: "agent \<Rightarrow> action \<Rightarrow> bool" where
  "tool_not_registered s a = (case tool_needed a of None \<Rightarrow> True | Some tn \<Rightarrow> tools s tn = None)"

definition newer_first :: "memory_entry \<Rightarrow> memory_entry \<Rightarrow> bool" where
  "newer_first a b \<longleftrightarrow> mem_timestamp b \<le> mem_timestamp a"

subsection \<open>Example agents\<close>

definition failing_tool :: tool where
  "failing_tool ps = Raises ''service unavailable''"

definition finishing_tool :: tool where
  "finishing_tool ps = Returns (PyStr ''research finished'')"

text \<open>The three goals of the script's main block.\<close>

definition trip_agent :: agent where
  "trip_agent =
     add_goal 3 ''book_flight'' [(''destination'', PyStr ''Rome''), (''dates'', PyStr ''June 15-29'')] 1
       (add_goal 2 ''plan_budget'' [(''total_budget'', PyInt 3000), (''duration'', PyInt 14)] 2
         (add_goal 1 ''research_destination''
            [(''destination'', PyStr ''Rome''), (''duration'', PyInt 14)] 3
            (BasicAgent ''TravelBuddy'')))"

text \<open>Two goals of equal, maximal priority after one of lower priority.\<close>

definition tie_agent :: agent where
  "tie_agent =
     add_goal 3 ''book_flight'' [(''destination'', PyStr ''Rome'')] 3
       (add_goal 2 ''plan_budget'' [(''total_budget'', PyInt 3000)] 3
         (add_goal 1 ''research_destination'' [(''destination'', PyStr ''Rome'')] 2
            (BasicAgent ''TravelBuddy'')))"

text \<open>
  One goal and six memory entries that all mention its type; only the oldest one carries a
  high satisfaction. No tool is registered.
\<close>

definition stale_agent :: agent where
  "stale_agent =
     remember 6 ''note'' PyNone ''plan_budget pending'' (Some 3)
       (remember 5 ''note'' PyNone ''plan_budget pending'' (Some 3)
         (remember 4 ''note'' PyNone ''plan_budget pending'' (Some 3)
           (remember 3 ''note'' PyNone ''plan_budget pending'' (Some 3)
             (remember 2 ''note'' PyNone ''plan_budget pending'' (Some 3)
               (remember 1 ''note'' PyNone ''plan_budget done'' (Some 9)
                 (add_goal 0 ''plan_budget'' [] 1 (BasicAgent ''Planner'')))))))"

text \<open>A goal without a template, served by a registered tool that reports on it.\<close>

definition research_agent :: agent where
  "research_agent =
     add_tool ''web_search'' finishing_tool
       (add_goal 0 ''research'' [(''topic'', PyStr ''Rome'')] 1 (BasicAgent ''Scout''))"

definition broken_agent :: agent where
  "broken_agent =
     add_tool ''web_search'' failing_tool
       (add_goal 0 ''research'' [(''topic'', PyStr ''Rome'')] 1 (BasicAgent ''Scout''))"

definition plain_action :: action where
  "plain_action = Action 0 ''think'' [] None"

definition search_action :: action where
  "search_action = Action 0 ''research'' [(''topic'', PyStr ''Rome'')] (Some ''web_search'')"

text \<open>Four remembered notes, three of which mention Rome; they were not stored in time order.\<close>

definition notes_agent :: agent where
  "notes_agent =
     remember 4 ''note'' (PyStr ''Paris in spring'') ''skipped'' None
       (remember 3 ''note'' (PyStr ''ROME hotels'') ''booked'' (Some 8)
         (remember 1 ''note'' PyNone ''Flights to Rome found'' (Some 6)
           (remember 2 ''note'' (PyStr ''museums'') ''Rome pass bought'' None
              (BasicAgent ''Notes''))))"

section \<open>The budget planner (budget_planner_agent.py)\<close>

text \<open>
  The category table is a dictionary whose five keys are fixed by the constructor and never
  change; it is modelled as a function on the five names, visited in the order of the
  dictionary literal. Console output is not modelled.
\<close>

datatype py_error = ZeroDivisionError | KeyError string

datatype category_name = Accommodation | Food | Activities | Transport | Shopping

definition all_categories :: "category_name list" where
  "all_categories = [Accommodation, Food, Activities, Transport, Shopping]"

fun name_of :: "category_name \<Rightarrow> string" where
  "name_of Accommodation = ''accommodation''"
| "name_of Food = ''food''"
| "name_of Activities = ''activities''"
| "name_of Transport = ''transport''"
| "name_of Shopping = ''shopping''"

text \<open>\<open>category in self.categories\<close>, with the key found.\<close>

definition category_of :: "string \<Rightarrow> category_name option" where
  "category_of n = find (\<lambda>c. name_of c = n) all_categories"

record category =
  default_pct :: rat
  allocated :: rat
  spent :: rat
  cat_priority :: string

record expense =
  exp_id :: int
  exp_category :: string
  exp_amount :: rat
  exp_description :: string
  exp_date :: string
  exp_timestamp :: timestamp

record alert =
  alert_type :: string
  alert_category :: string
  alert_amount :: rat
  alert_message :: string
  alert_timestamp :: timestamp

record budget_agent =
  planner_name :: string
  total_budget :: rat
  trip_duration :: int
  daily_budget :: rat
  categories :: "category_name \<Rightarrow> category"
  expenses :: "expense list"
  recommendations :: "string list"
  alerts :: "alert list"

fun initial_categories :: "category_name \<Rightarrow> category" where
  "initial_categories Accommodation =
     \<lparr>default_pct = 35 / 100, allocated = 0, spent = 0, cat_priority = ''high''\<rparr>"
| "initial_categories Food =
     \<lparr>default_pct = 25 / 100, allocated = 0, spent = 0, cat_priority = ''high''\<rparr>"
| "initial_categories Activities =
     \<lparr>default_pct = 20 / 100, allocated = 0, spent = 0, cat_priority = ''medium''\<rparr>"
| "initial_categories Transport =
     \<lparr>default_pct = 15 / 100, allocated = 0, spent = 0, cat_priority = ''high''\<rparr>"
| "initial_categories Shopping =
     \<lparr>default_pct = 5 / 100, allocated = 0, spent = 0, cat_priority = ''low''\<rparr>"

definition calculate_initial_allocation :: "budget_agent \<Rightarrow> budget_agent" where
  "calculate_initial_allocation s =
     fold (\<lambda>c s'. s'\<lparr>categories := (categories s')
                      (c := (categories s' c)\<lparr>allocated := total_budget s' * default_pct (categories s' c)\<rparr>)\<rparr>)
          all_categories s"

text \<open>
  The constructor; \<open>total_budget / trip_duration\<close> raises when the duration is 0.
  \<open>new_planner\<close> is the agent that a successful construction yields.
\<close>

definition new_planner :: "rat \<Rightarrow> int \<Rightarrow> budget_agent" where
  "new_planner tb duration =
     calculate_initial_allocation
       \<lparr>planner_name = ''BudgetWise'', total_budget = tb, trip_duration = duration,
        daily_budget = tb / of_int duration, categories = initial_categories,
        expenses = [], recommendations = [], alerts = []\<rparr>"

definition BudgetPlannerAgent :: "rat \<Rightarrow> int \<Rightarrow> py_error + budget_agent" where
  "BudgetPlannerAgent tb duration =
     (if duration = 0 then Inl ZeroDivisionError else Inr (new_planner tb duration))"

text \<open>
  \<open>analyze_budget_distribution\<close> and \<open>_calculate_priority_adjustments\<close> are not part of
  this development: the guard \<open>abs(total_adjustment) > 0.01\<close> and the choice of the
  largest category compare rounded floating-point sums, which exact arithmetic does not
  reproduce.
\<close>

subsection \<open>Expense tracking\<close>





definition priority_order :: "string \<Rightarrow> nat" where
  "priority_order p =
     (case map_of [(''low'', 0), (''medium'', 1), (''high'', 2)] p of None \<Rightarrow> 1 | Some n \<Rightarrow> n)"

text \<open>
  The categories with remaining budget, other than the overspent one, as triples of name,
  remaining amount and declared priority, sorted (stably) by priority rank.
\<close>

definition available_categories ::
  "budget_agent \<Rightarrow> string \<Rightarrow> (category_name \<times> rat \<times> string) list" where
  "available_categories s overspent_category =
     sort_key (\<lambda>x. priority_order (snd (snd x)))
       (filter (\<lambda>x. 0 < fst (snd x))
          (map (\<lambda>c. (c, allocated (categories s c) - spent (categories s c), cat_priority (categories s c)))
             (filter (\<lambda>c. name_of c \<noteq> overspent_category) all_categories)))"








section \<open>Destination scoring (03-simple-travel-agent.py)\<close>

record trip_goals =
  destinations :: "string list"
  budget :: int
  duration :: int
  preferences :: "string list"
  constraints :: "string list"

text \<open>The dictionaries that the mock weather and price services return.\<close>

record forecast_report =
  fc_city :: string
  fc_forecast :: string
  fc_temperature :: int
  fc_rainfall :: int

record hotel_prices =
  hp_city :: string
  avg_hotel_price :: int
  budget_options :: rat
  luxury_options :: rat

record analysis =
  overall_score :: rat
  reasons :: "string list"
  analysis_recommended :: bool

text \<open>\<open>round(x, n)\<close> on the exact value, ties to even.\<close>

definition py_round :: "nat \<Rightarrow> rat \<Rightarrow> rat" where
  "py_round n x = of_int (round_half_even (x * 10 ^ n)) / 10 ^ n"

text \<open>
  \<open>analyze_destination\<close>: the score and the list of reasons pass through four steps
  (weather, budget, museums, nightlife).
\<close>

definition analyze_destination ::
  "trip_goals \<Rightarrow> string \<Rightarrow> forecast_report \<Rightarrow> hotel_prices \<Rightarrow> analysis" where
  "analyze_destination g city weather prices =
     (let (score1, reasons1) =
            (if fc_forecast weather = ''sunny'' \<and> ''outdoor activities'' \<in> set (preferences g)
             then (5 + 2, [''Great weather for outdoor activities''])
             else if fc_forecast weather = ''rainy''
             then (5 - 1, [''Rainy weather might limit outdoor activities''])
             else (5, []));
          daily_cost = avg_hotel_price prices;
          (score2, reasons2) =
            (if rat_of_int (daily_cost * duration g) \<le> rat_of_int (budget g) * (6 / 10)
             then (score1 + 1, reasons1 @ [''Within budget range''])
             else (score1 - 2, reasons1 @ [''Might be expensive for the budget'']));
          (score3, reasons3) =
            (if ''museums'' \<in> set (preferences g) \<and> lower city \<in> set [''paris'', ''berlin'']
             then (score2 + 15 / 10, reasons2 @ [''Excellent museums''])
             else (score2, reasons2));
          (score4, reasons4) =
            (if ''nightlife'' \<in> set (preferences g) \<and> lower city \<in> set [''berlin'', ''amsterdam'']
             then (score3 + 1, reasons3 @ [''Great nightlife scene''])
             else (score3, reasons3))
      in \<lparr>overall_score = py_round 1 (min 10 (max 1 score4)), reasons = reasons4,
          analysis_recommended = (6 \<le> score4)\<rparr>)"

text \<open>
  The score as the specification words it: a base of 5, fixed increments where a
  condition holds and fixed penalties for rain and for a hotel price beyond the budget.
\<close>

definition destination_score ::
  "trip_goals \<Rightarrow> string \<Rightarrow> forecast_report \<Rightarrow> hotel_prices \<Rightarrow> rat" where
  "destination_score g city weather prices =
     5 + (if fc_forecast weather = ''sunny'' \<and> ''outdoor activities'' \<in> set (preferences g) then 2
          else if fc_forecast weather = ''rainy'' then - 1 else 0)
       + (if rat_of_int (avg_hotel_price prices * duration g) \<le> rat_of_int (budget g) * (6 / 10)
          then 1 else - 2)
       + (if ''museums'' \<in> set (preferences g) \<and> lower city \<in> {''paris'', ''berlin''} then 15 / 10 else 0)
       + (if ''nightlife'' \<in> set (preferences g) \<and> lower city \<in> {''berlin'', ''amsterdam''} then 1 else 0)"

section \<open>The trip researcher (trip_research_agent.py)\<close>

record weather_entry =
  temp :: string
  weather_description :: string
  rain :: string

record destination_data =
  attractions :: "string list"
  weather :: "(string \<times> weather_entry) list"
  local_tips :: "string list"
  budget_ranges :: "(string \<times> int) list"

definition degrees :: string where
  "degrees = [CHR 0xC2, CHR 0xB0] @ ''C''"

definition u_umlaut :: string where
  "u_umlaut = [CHR 0xC3, CHR 0xBC]"

definition o_acute :: string where
  "o_acute = [CHR 0xC3, CHR 0xB3]"

definition i_acute :: string where
  "i_acute = [CHR 0xC3, CHR 0xAD]"

definition knowledge_base :: "(string \<times> destination_data) list" where
  "knowledge_base =
     [(''Rome'',
       \<lparr>attractions = [''Colosseum'', ''Vatican City'', ''Trevi Fountain'', ''Roman Forum'', ''Pantheon''],
        weather =
          [(''June'', \<lparr>temp = ''20-28'' @ degrees, weather_description = ''Warm and pleasant'', rain = ''Low''\<rparr>),
           (''July'', \<lparr>temp = ''23-31'' @ degrees, weather_description = ''Hot and sunny'', rain = ''Very low''\<rparr>),
           (''August'', \<lparr>temp = ''23-31'' @ degrees, weather_description = ''Very hot'', rain = ''Low''\<rparr>),
           (''September'',
              \<lparr>temp = ''19-26'' @ degrees, weather_description = ''Mild and comfortable'', rain = ''Moderate''\<rparr>)],
        local_tips =
          [''Book attractions in advance to skip lines'',
           ''Dress modestly for Vatican visits'',
           ''Try authentic Roman pizza al taglio'',
           ''Walk early morning or evening when it'' @ [CHR 0x27] @ ''s cooler''],
        budget_ranges = [(''budget'', 60), (''mid-range'', 120), (''luxury'', 250)]\<rparr>),
      (''Paris'',
       \<lparr>attractions = [''Eiffel Tower'', ''Louvre Museum'', ''Notre-Dame'', ''Arc de Triomphe'', ''Montmartre''],
        weather =
          [(''June'', \<lparr>temp = ''15-22'' @ degrees, weather_description = ''Mild and pleasant'', rain = ''Moderate''\<rparr>),
           (''July'', \<lparr>temp = ''17-25'' @ degrees, weather_description = ''Warm'', rain = ''Low''\<rparr>),
           (''August'', \<lparr>temp = ''17-25'' @ degrees, weather_description = ''Warm'', rain = ''Low''\<rparr>),
           (''September'',
              \<lparr>temp = ''14-21'' @ degrees, weather_description = ''Cool and comfortable'', rain = ''Moderate''\<rparr>)],
        local_tips =
          [''Learn basic French phrases'',
           ''Visit museums on first Sunday mornings for free entry'',
           ''Try croissants from local boulangeries'',
           ''Use the metro for efficient city travel''],
        budget_ranges = [(''budget'', 70), (''mid-range'', 140), (''luxury'', 300)]\<rparr>),
      (''Barcelona'',
       \<lparr>attractions = [''Sagrada Familia'', ''Park G'' @ u_umlaut @ ''ell'', ''Las Ramblas'',
                       ''Gothic Quarter'', ''Casa Batll'' @ o_acute],
        weather =
          [(''June'', \<lparr>temp = ''20-26'' @ degrees, weather_description = ''Perfect weather'', rain = ''Low''\<rparr>),
           (''July'', \<lparr>temp = ''23-29'' @ degrees, weather_description = ''Warm and sunny'', rain = ''Very low''\<rparr>),
           (''August'', \<lparr>temp = ''24-29'' @ degrees, weather_description = ''Hot'', rain = ''Low''\<rparr>),
           (''September'',
              \<lparr>temp = ''21-26'' @ degrees, weather_description = ''Excellent weather'', rain = ''Low''\<rparr>)],
        local_tips =
          [''Book Sagrada Familia tickets well in advance'',
           ''Enjoy tapas culture - eat small plates'',
           ''Siesta time is real - many shops close 2-5 PM'',
           ''Beach is easily accessible by metro''],
        budget_ranges = [(''budget'', 50), (''mid-range'', 100), (''luxury'', 200)]\<rparr>)]"

record weather_report =
  temperature :: string
  report_description :: string
  rain_probability :: string
  packing_advice :: string

definition generate_packing_advice :: "weather_entry \<Rightarrow> string" where
  "generate_packing_advice w =
     (let temp_range = temp w;
          rain_lower = lower (rain w);
          advice =
            (if str_in ''30'' temp_range \<or> str_in ''hot'' (lower (weather_description w))
             then [''Light, breathable clothing'', ''Sun hat and sunscreen'', ''Comfortable walking shoes'']
             else if str_in ''15'' temp_range \<and> \<not> str_in ''25'' temp_range
             then [''Layered clothing'', ''Light jacket or cardigan'', ''Comfortable walking shoes'']
             else [''Comfortable layers'', ''Light jacket'', ''Good walking shoes''])
      in join '', '' (if rain_lower \<in> set [''moderate'', ''high'']
                      then advice @ [''Compact umbrella or rain jacket''] else advice))"

definition default_weather :: weather_report where
  "default_weather =
     \<lparr>temperature = ''15-25'' @ degrees, report_description = ''Typical European weather'',
      rain_probability = ''Moderate'',
      packing_advice = ''Pack layers and bring a light rain jacket''\<rparr>"

definition research_weather :: "string \<Rightarrow> string \<Rightarrow> weather_report" where
  "research_weather destination travel_month =
     (let weather_data = (case map_of knowledge_base destination of
                            None \<Rightarrow> [] | Some dest_data \<Rightarrow> weather dest_data)
      in case map_of weather_data travel_month of
           Some w \<Rightarrow>
             \<lparr>temperature = temp w, report_description = weather_description w,
              rain_probability = rain w, packing_advice = generate_packing_advice w\<rparr>
         | None \<Rightarrow> default_weather)"

record attraction_score =
  attr_name :: string
  attr_score :: rat
  attr_recommended :: bool
  interest_match :: string

definition interest_keywords :: "(string \<times> string list) list" where
  "interest_keywords =
     [(''history'', [''colosseum'', ''forum'', ''pantheon'', ''notre-dame'', ''gothic'']),
      (''art'', [''louvre'', ''vatican'', ''museum'', ''gallery'']),
      (''architecture'', [''sagrada'', ''eiffel'', ''pantheon'', ''arc'', ''casa'']),
      (''culture'', [''montmartre'', ''las ramblas'', ''vatican'', ''gothic quarter'']),
      (''food'', [''market'', ''quarter'', ''ramblas'']),
      (''nature'', [''park'', ''garden'', ''g'' @ u_umlaut @ ''ell''])]"

definition score_attraction_for_interests :: "string \<Rightarrow> string list \<Rightarrow> rat" where
  "score_attraction_for_interests attraction interests =
     (let attraction_lower = lower attraction;
          score =
            fold (\<lambda>interest score.
                    case map_of interest_keywords (lower interest) of
                      None \<Rightarrow> score
                    | Some keywords \<Rightarrow>
                        fold (\<lambda>keyword score.
                                if str_in keyword attraction_lower then score + 3 / 10 else score)
                             keywords score)
                 interests (3 / 10)
      in min score 1)"

definition get_interest_match :: "string \<Rightarrow> string list \<Rightarrow> string" where
  "get_interest_match attraction interests =
     (let attraction_lower = lower attraction in
      if list_ex (\<lambda>word. str_in word attraction_lower) [''museum'', ''art'', ''louvre'', ''vatican'']
      then ''art & culture''
      else if list_ex (\<lambda>word. str_in word attraction_lower)
                [''colosseum'', ''forum'', ''pantheon'', ''notre-dame'']
      then ''history''
      else if list_ex (\<lambda>word. str_in word attraction_lower) [''eiffel'', ''sagrada'', ''arc'', ''casa'']
      then ''architecture''
      else if list_ex (\<lambda>word. str_in word attraction_lower) [''park'', ''garden'', ''g'' @ u_umlaut @ ''ell'']
      then ''nature''
      else ''general interest'')"

definition research_attractions :: "string \<Rightarrow> string list \<Rightarrow> attraction_score list" where
  "research_attractions destination interests =
     (let all_attractions = (case map_of knowledge_base destination of
                               None \<Rightarrow> [''Local museums'', ''City center'', ''Parks'']
                             | Some dest_data \<Rightarrow> attractions dest_data);
          attraction_scores =
            map (\<lambda>attraction.
                   (let score = score_attraction_for_interests attraction interests
                    in \<lparr>attr_name = attraction, attr_score = score,
                        attr_recommended = (5 / 10 < score),
                        interest_match = get_interest_match attraction interests\<rparr>))
                all_attractions
      in slice_to 5 (sorted_reverse attr_score attraction_scores))"

record budget_insights =
  insight_daily_budget :: int
  budget_breakdown :: "(string \<times> rat) list"
  money_saving_tips :: "string list"
  splurge_recommendations :: "string list"

definition get_splurge_recommendations :: "string \<Rightarrow> string list" where
  "get_splurge_recommendations destination =
     (let splurge_map =
            [(''Rome'', [''Private Vatican tour after hours'', ''Michelin-starred dining experience'',
                        ''Private gladiator experience'']),
             (''Paris'', [''Private Louvre tour'', ''Seine river dinner cruise'',
                         ''Champagne tasting in Champagne region'']),
             (''Barcelona'', [''Private Gaud'' @ i_acute @ '' architecture tour'', ''Flamenco dinner show'',
                             ''Day trip to Montserrat monastery''])]
      in case map_of splurge_map destination of
           None \<Rightarrow> [''Premium local experiences'', ''Fine dining'', ''Private guided tours'']
         | Some xs \<Rightarrow> xs)"

text \<open>
  \<open>get_budget_insights\<close>. The default argument \<open>budget_ranges['mid-range']\<close> is evaluated
  first and raises \<open>KeyError\<close> when the table lacks that key.
\<close>

definition get_budget_insights :: "string \<Rightarrow> string \<Rightarrow> py_error + budget_insights" where
  "get_budget_insights destination budget_type =
     (let ranges = (case map_of knowledge_base destination of
                      None \<Rightarrow> [(''budget'', 50), (''mid-range'', 100), (''luxury'', 200)]
                    | Some dest_data \<Rightarrow> budget_ranges dest_data);
          tips = (case map_of knowledge_base destination of
                    None \<Rightarrow> [''Research local customs'', ''Book accommodations in advance'']
                  | Some dest_data \<Rightarrow> local_tips dest_data)
      in case map_of ranges ''mid-range'' of
           None \<Rightarrow> Inl (KeyError ''mid-range'')
         | Some mid \<Rightarrow>
             (let daily = (case map_of ranges budget_type of None \<Rightarrow> mid | Some b \<Rightarrow> b)
              in Inr \<lparr>insight_daily_budget = daily,
                      budget_breakdown =
                        [(''accommodation'', of_int daily * (4 / 10)),
                         (''food'', of_int daily * (3 / 10)),
                         (''activities'', of_int daily * (2 / 10)),
                         (''transport'', of_int daily * (1 / 10))],
                      money_saving_tips =
                        filter (\<lambda>tip. list_ex (\<lambda>word. str_in word (lower tip))
                                         [''free'', ''save'', ''advance'', ''local'']) tips,
                      splurge_recommendations =
                        (if budget_type = ''luxury'' then get_splurge_recommendations destination
                         else [])\<rparr>))"

text \<open>
  The number of keyword hits that the scoring loop counts: one for each keyword of each
  recognized interest of the caller that occurs in the lower-cased attraction name.
\<close>

definition keyword_hits :: "string \<Rightarrow> string list \<Rightarrow> nat" where
  "keyword_hits attraction interests =
     sum_list (map (\<lambda>interest.
                      case map_of interest_keywords (lower interest) of
                        None \<Rightarrow> 0
                      | Some keywords \<Rightarrow> length (filter (\<lambda>keyword. str_in keyword (lower attraction)) keywords))
                   interests)"

subsection \<open>Example inputs\<close>

text \<open>The goals of the script's main block, with and without stated preferences.\<close>

definition my_trip_goals :: trip_goals where
  "my_trip_goals =
     \<lparr>destinations = [''Paris'', ''Berlin'', ''Amsterdam'', ''Prague''], budget = 2500, duration = 14,
      preferences = [''museums'', ''local food'', ''nightlife''],
      constraints = [''no more than 3 flights'', ''stay in city centers'']\<rparr>"

definition outdoor_goals :: trip_goals where
  "outdoor_goals = my_trip_goals\<lparr>preferences := [''museums'', ''outdoor activities'', ''nightlife'']\<rparr>"

definition cloudy_prague :: forecast_report where
  "cloudy_prague = \<lparr>fc_city = ''Prague'', fc_forecast = ''cloudy'', fc_temperature = 12, fc_rainfall = 20\<rparr>"

definition prague_prices :: hotel_prices where
  "prague_prices = \<lparr>hp_city = ''Prague'', avg_hotel_price = 60, budget_options = 36, luxury_options = 150\<rparr>"

definition sunny_berlin :: forecast_report where
  "sunny_berlin = \<lparr>fc_city = ''Berlin'', fc_forecast = ''sunny'', fc_temperature = 22, fc_rainfall = 0\<rparr>"

definition berlin_prices :: hotel_prices where
  "berlin_prices = \<lparr>hp_city = ''Berlin'', avg_hotel_price = 80, budget_options = 48, luxury_options = 200\<rparr>"

section \<open>Properties of the basic agent\<close>

subsection \<open>Planning the next action\<close>

lemma max_key_split_gen:
  assumes "\<forall>h\<in>set pre0. k h < k b" and "\<forall>h\<in>set mid. k h \<le> k b"
  shows "\<exists>pre post. pre0 @ b # mid @ xs = pre @ max_key k b xs # post \<and>
           (\<forall>h\<in>set pre. k h < k (max_key k b xs)) \<and>
           (\<forall>h\<in>set post. k h \<le> k (max_key k b xs))"
  using assms
proof (induction xs arbitrary: pre0 b mid)
  case Nil
  then show ?case by auto
next
  case (Cons x xs)
  show ?case
  proof (cases "k b < k x")
    case True
    have p: "\<forall>h\<in>set (pre0 @ b # mid). k h < k x"
      using Cons.prems True by fastforce
    have "\<exists>pre post. (pre0 @ b # mid) @ x # [] @ xs = pre @ max_key k x xs # post \<and>
           (\<forall>h\<in>set pre. k h < k (max_key k x xs)) \<and>
           (\<forall>h\<in>set post. k h \<le> k (max_key k x xs))"
      by (rule Cons.IH[OF p]) simp
    with True show ?thesis by simp
  next
    case False
    have m: "\<forall>h\<in>set (mid @ [x]). k h \<le> k b"
      using Cons.prems False by auto
    have "\<exists>pre post. pre0 @ b # (mid @ [x]) @ xs = pre @ max_key k b xs # post \<and>
           (\<forall>h\<in>set pre. k h < k (max_key k b xs)) \<and>
           (\<forall>h\<in>set post. k h \<le> k (max_key k b xs))"
      by (rule Cons.IH[OF Cons.prems(1) m])
    with False show ?thesis by simp
  qed
qed

lemma max_key_split:
  "\<exists>pre post. b # xs = pre @ max_key k b xs # post \<and>
           (\<forall>h\<in>set pre. k h < k (max_key k b xs)) \<and>
           (\<forall>h\<in>set post. k h \<le> k (max_key k b xs))"
  using max_key_split_gen[of "[]" k b "[]" xs] by simp

lemma filter_split:
  "filter P xs = pre' @ m # post' \<Longrightarrow>
     \<exists>pre post. xs = pre @ m # post \<and> filter P pre = pre' \<and> filter P post = post' \<and> P m"
proof (induction xs arbitrary: pre')
  case Nil
  then show ?case by simp
next
  case (Cons x xs)
  show ?case
  proof (cases "P x")
    case False
    with Cons.prems have "filter P xs = pre' @ m # post'" by simp
    from Cons.IH[OF this] obtain pre post where
      "xs = pre @ m # post" "filter P pre = pre'" "filter P post = post'" "P m" by blast
    with False have "x # xs = (x # pre) @ m # post \<and> filter P (x # pre) = pre' \<and>
        filter P post = post' \<and> P m" by simp
    then show ?thesis by blast
  next
    case True
    show ?thesis
    proof (cases pre')
      case Nil
      with True Cons.prems have "x # xs = [] @ m # xs \<and> filter P [] = pre' \<and>
        filter P xs = post' \<and> P m" by simp
      then show ?thesis by blast
    next
      case (Cons p ps)
      with True Cons.prems have px: "p = x" and "filter P xs = ps @ m # post'" by simp_all
      from Cons.IH[OF this(2)] obtain pre post where
        "xs = pre @ m # post" "filter P pre = ps" "filter P post = post'" "P m" by blast
      with True px Cons have "x # xs = (x # pre) @ m # post \<and> filter P (x # pre) = pre' \<and>
        filter P post = post' \<and> P m" by simp
      then show ?thesis by blast
    qed
  qed
qed


lemma plan_next_action_None:
  "plan_next_action now s = None \<longleftrightarrow> (\<forall>g\<in>set (goals s). completed g)"
proof -
  have "filter (\<lambda>g. \<not> completed g) (goals s) = [] \<longleftrightarrow> (\<forall>g\<in>set (goals s). completed g)"
    by (simp add: filter_empty_conv)
  then show ?thesis
    by (cases "filter (\<lambda>g. \<not> completed g) (goals s)") (simp_all add: plan_next_action_def)
qed


lemma plan_next_action_Some:
  assumes "\<not> (\<forall>g\<in>set (goals s). completed g)"
  shows "\<exists>pre g post. goals s = pre @ g # post \<and> \<not> completed g \<and>
           (\<forall>h\<in>set pre. \<not> completed h \<longrightarrow> priority h < priority g) \<and>
           (\<forall>h\<in>set post. \<not> completed h \<longrightarrow> priority h \<le> priority g) \<and>
           plan_next_action now s = Some (create_action_for_goal now g)"
proof -
  obtain y ys where f: "filter (\<lambda>g. \<not> completed g) (goals s) = y # ys"
    using assms by (cases "filter (\<lambda>g. \<not> completed g) (goals s)") (auto simp: filter_empty_conv)
  define m where "m = max_key priority y ys"
  obtain pre' post' where s: "y # ys = pre' @ m # post'"
      "\<forall>h\<in>set pre'. priority h < priority m" "\<forall>h\<in>set post'. priority h \<le> priority m"
    using max_key_split[of y ys priority] unfolding m_def by blast
  from f s(1) have "filter (\<lambda>g. \<not> completed g) (goals s) = pre' @ m # post'" by simp
  from filter_split[OF this] obtain pre post where
    g: "goals s = pre @ m # post" "filter (\<lambda>g. \<not> completed g) pre = pre'"
       "filter (\<lambda>g. \<not> completed g) post = post'" "\<not> completed m" by blast
  have "plan_next_action now s = Some (create_action_for_goal now m)"
    by (simp add: plan_next_action_def f m_def)
  moreover have "\<forall>h\<in>set pre. \<not> completed h \<longrightarrow> priority h < priority m"
    using s(2) g(2) by auto
  moreover have "\<forall>h\<in>set post. \<not> completed h \<longrightarrow> priority h \<le> priority m"
    using s(3) g(3) by auto
  ultimately show ?thesis using g(1,4) by blast
qed

lemma create_action_for_goal_cases:
  "create_action_for_goal now g =
     (if goal_type g = ''research_destination'' then
        Action now ''search_info'' [(''query'', dict_get (goal_parameters g) ''destination'')] (Some ''web_search'')
      else if goal_type g = ''plan_budget'' then
        Action now ''calculate_budget'' (goal_parameters g) (Some ''budget_calculator'')
      else if goal_type g = ''book_flight'' then
        Action now ''search_flights'' (goal_parameters g) (Some ''flight_api'')
      else if goal_type g = ''find_accommodation'' then
        Action now ''search_hotels'' (goal_parameters g) (Some ''hotel_api'')
      else Action now ''research'' (goal_parameters g) (Some ''web_search''))"
  by (simp add: create_action_for_goal_def)


text \<open>
  Claim C5. \<open>plan_next_action\<close> returns \<open>None\<close> exactly when no incomplete goal exists.
  Otherwise it returns the action that the static template map (with the \<open>research\<close> /
  \<open>web_search\<close> default) derives from an incomplete goal of maximal priority, the first
  such goal in list order: every incomplete goal before it has a strictly smaller priority.
\<close>

theorem plan_next_action_selects:
  "(plan_next_action now s = None \<longleftrightarrow> (\<forall>g\<in>set (goals s). completed g)) \<and>
   ((\<exists>g\<in>set (goals s). \<not> completed g) \<longrightarrow>
      (\<exists>pre g post. goals s = pre @ g # post \<and> \<not> completed g \<and>
         (\<forall>h\<in>set pre. \<not> completed h \<longrightarrow> priority h < priority g) \<and>
         (\<forall>h\<in>set post. \<not> completed h \<longrightarrow> priority h \<le> priority g) \<and>
         plan_next_action now s = Some (create_action_for_goal now g) \<and>
         create_action_for_goal now g =
           (if goal_type g = ''research_destination'' then
              Action now ''search_info''
                [(''query'', dict_get (goal_parameters g) ''destination'')] (Some ''web_search'')
            else if goal_type g = ''plan_budget'' then
              Action now ''calculate_budget'' (goal_parameters g) (Some ''budget_calculator'')
            else if goal_type g = ''book_flight'' then
              Action now ''search_flights'' (goal_parameters g) (Some ''flight_api'')
            else if goal_type g = ''find_accommodation'' then
              Action now ''search_hotels'' (goal_parameters g) (Some ''hotel_api'')
            else Action now ''research'' (goal_parameters g) (Some ''web_search''))))"
proof (intro conjI impI)
  show "plan_next_action now s = None \<longleftrightarrow> (\<forall>g\<in>set (goals s). completed g)"
    by (rule plan_next_action_None)
next
  assume "\<exists>g\<in>set (goals s). \<not> completed g"
  then have "\<not> (\<forall>g\<in>set (goals s). completed g)" by blast
  from plan_next_action_Some[OF this, of now] obtain pre g post where
    h: "goals s = pre @ g # post" "\<not> completed g"
       "\<forall>h\<in>set pre. \<not> completed h \<longrightarrow> priority h < priority g"
       "\<forall>h\<in>set post. \<not> completed h \<longrightarrow> priority h \<le> priority g"
       "plan_next_action now s = Some (create_action_for_goal now g)" by blast
  show "\<exists>pre g post. goals s = pre @ g # post \<and> \<not> completed g \<and>
         (\<forall>h\<in>set pre. \<not> completed h \<longrightarrow> priority h < priority g) \<and>
         (\<forall>h\<in>set post. \<not> completed h \<longrightarrow> priority h \<le> priority g) \<and>
         plan_next_action now s = Some (create_action_for_goal now g) \<and>
         create_action_for_goal now g =
           (if goal_type g = ''research_destination'' then
              Action now ''search_info''
                [(''query'', dict_get (goal_parameters g) ''destination'')] (Some ''web_search'')
            else if goal_type g = ''plan_budget'' then
              Action now ''calculate_budget'' (goal_parameters g) (Some ''budget_calculator'')
            else if goal_type g = ''book_flight'' then
              Action now ''search_flights'' (goal_parameters g) (Some ''flight_api'')
            else if goal_type g = ''find_accommodation'' then
              Action now ''search_hotels'' (goal_parameters g) (Some ''hotel_api'')
            else Action now ''research'' (goal_parameters g) (Some ''web_search''))"
    using h create_action_for_goal_cases[of now g] by blast
qed

lemmas agent_simps = BasicAgent_def add_goal_def add_tool_def remember_def Goal_def Action_def
  MemoryEntry_def

text \<open>
  With priorities 2, 3, 3 the second goal (\<open>plan_budget\<close>) is chosen; an agent without goals
  plans nothing.
\<close>

theorem plan_next_action_selects_witness:
  "(\<exists>g\<in>set (goals tie_agent). \<not> completed g) \<and>
   plan_next_action 7 tie_agent =
     Some (Action 7 ''calculate_budget'' [(''total_budget'', PyInt 3000)] (Some ''budget_calculator'')) \<and>
   plan_next_action 7 (BasicAgent ''Idle'') = None"
proof -
  have e: "\<exists>g\<in>set (goals tie_agent). \<not> completed g"
    by (simp add: tie_agent_def agent_simps)
  from plan_next_action_selects[of 7 tie_agent] e obtain pre g post where
    h: "goals tie_agent = pre @ g # post" "\<not> completed g"
       "\<forall>h\<in>set pre. \<not> completed h \<longrightarrow> priority h < priority g"
       "\<forall>h\<in>set post. \<not> completed h \<longrightarrow> priority h \<le> priority g"
       "plan_next_action 7 tie_agent = Some (create_action_for_goal 7 g)" by blast
  have p: "plan_next_action 7 tie_agent =
     Some (Action 7 ''calculate_budget'' [(''total_budget'', PyInt 3000)] (Some ''budget_calculator''))"
    by (simp add: tie_agent_def agent_simps plan_next_action_def create_action_for_goal_def)
  have n: "plan_next_action 7 (BasicAgent ''Idle'') = None"
    using plan_next_action_selects[of 7 "BasicAgent ''Idle''"] by (simp add: BasicAgent_def)
  from e h(2) p n show ?thesis by blast
qed

subsection \<open>Retrieval of relevant memories\<close>

lemma mset_sorted_reverse: "mset (sorted_reverse k xs) = mset xs"
  by (simp add: sorted_reverse_def)

lemma set_sorted_reverse: "set (sorted_reverse k xs) = set xs"
  by (simp add: sorted_reverse_def)

lemma length_sorted_reverse: "length (sorted_reverse k xs) = length xs"
  by (simp add: sorted_reverse_def)

lemma sorted_reverse_descending: "sorted_wrt (\<lambda>a b. k b \<le> k a) (sorted_reverse k xs)"
proof -
  have "sorted (map k (sort_key k (rev xs)))" by (rule sorted_sort_key)
  then have "sorted_wrt (\<lambda>a b. k a \<le> k b) (sort_key k (rev xs))"
    by (simp add: sorted_map)
  then show ?thesis
    by (simp add: sorted_reverse_def sorted_wrt_rev)
qed

lemma sorted_reverse_stable:
  "filter (\<lambda>y. k y = t) (sorted_reverse k xs) = filter (\<lambda>y. k y = t) xs"
  by (simp add: sorted_reverse_def rev_filter[symmetric] sort_key_stable)

lemma slice_to_nonneg: "0 \<le> n \<Longrightarrow> slice_to n xs = take (nat n) xs"
  by (simp add: slice_to_def)

lemma set_slice_to: "set (slice_to n xs) \<subseteq> set xs"
  by (auto simp: slice_to_def dest: in_set_takeD)

lemma set_get_relevant_memories:
  "set (get_relevant_memories py_str mem c n) \<subseteq> {m \<in> set mem. relevant py_str c m}"
proof -
  have "set (get_relevant_memories py_str mem c n)
          \<subseteq> set (sorted_reverse mem_timestamp (filter (relevant py_str c) mem))"
    unfolding get_relevant_memories_def by (rule set_slice_to)
  then show ?thesis by (auto simp: set_sorted_reverse)
qed

text \<open>
  Claim C4, amended to requested limits that are not negative. \<open>get_relevant_memories\<close>
  returns only entries of the memory whose stringified data or outcome contains the context
  string case-insensitively; the result is ordered most recent first; it holds
  \<open>min limit n\<close> entries when \<open>n\<close> entries match; the matching entries left out
  (\<open>older\<close>) are no more recent than any returned entry, and none is left out when at most
  \<open>limit\<close> entries match.
\<close>

theorem get_relevant_memories_recent:
  assumes "0 \<le> limit"
  shows "\<exists>older.
           mset (get_relevant_memories py_str mem c limit) + mset older
             = mset (filter (relevant py_str c) mem) \<and>
           (\<forall>r\<in>set (get_relevant_memories py_str mem c limit). \<forall>m\<in>set older. newer_first r m) \<and>
           sorted_wrt newer_first (get_relevant_memories py_str mem c limit) \<and>
           length (get_relevant_memories py_str mem c limit)
             = min (nat limit) (length (filter (relevant py_str c) mem)) \<and>
           (length (filter (relevant py_str c) mem) \<le> nat limit \<longrightarrow> older = [])"
proof -
  define ys where "ys = sorted_reverse mem_timestamp (filter (relevant py_str c) mem)"
  have res: "get_relevant_memories py_str mem c limit = take (nat limit) ys"
    using assms by (simp add: get_relevant_memories_def ys_def slice_to_nonneg)
  have srt: "sorted_wrt newer_first ys"
    unfolding ys_def newer_first_def by (rule sorted_reverse_descending)
  have split: "take (nat limit) ys @ drop (nat limit) ys = ys" by simp
  have "mset (take (nat limit) ys) + mset (drop (nat limit) ys) = mset ys"
    by (metis split mset_append)
  then have m: "mset (take (nat limit) ys) + mset (drop (nat limit) ys)
                  = mset (filter (relevant py_str c) mem)"
    by (simp add: ys_def mset_sorted_reverse)
  have "sorted_wrt newer_first (take (nat limit) ys @ drop (nat limit) ys)"
    using srt by simp
  then have o: "\<forall>r\<in>set (take (nat limit) ys). \<forall>m\<in>set (drop (nat limit) ys). newer_first r m"
    and t: "sorted_wrt newer_first (take (nat limit) ys)"
    unfolding sorted_wrt_append by blast+
  have l: "length (take (nat limit) ys) = min (nat limit) (length (filter (relevant py_str c) mem))"
    by (simp add: ys_def length_sorted_reverse min.commute)
  have e: "length (filter (relevant py_str c) mem) \<le> nat limit \<longrightarrow> drop (nat limit) ys = []"
    by (simp add: ys_def length_sorted_reverse)
  from m o t l e show ?thesis unfolding res by blast
qed



text \<open>
  At a limit of 2 the two most recent of the three notes on Rome are returned, newest first.
\<close>

theorem get_relevant_memories_recent_witness:
  "(0::int) \<le> 2 \<and>
   map mem_timestamp (get_relevant_memories str_atom (memory notes_agent) ''Rome'' 2) = [3, 2] \<and>
   length (filter (relevant str_atom ''Rome'') (memory notes_agent)) = 3 \<and>
   length (get_relevant_memories str_atom (memory notes_agent) ''Rome'' 2)
     = min (nat 2) (length (filter (relevant str_atom ''Rome'') (memory notes_agent)))"
proof -
  have h: "(0::int) \<le> 2" by simp
  from get_relevant_memories_recent[OF h, of str_atom "memory notes_agent" "''Rome''"]
  have l: "length (get_relevant_memories str_atom (memory notes_agent) ''Rome'' 2)
     = min (nat 2) (length (filter (relevant str_atom ''Rome'') (memory notes_agent)))" by blast
  have t: "map mem_timestamp (get_relevant_memories str_atom (memory notes_agent) ''Rome'' 2) = [3, 2]"
    by code_simp
  have n: "length (filter (relevant str_atom ''Rome'') (memory notes_agent)) = 3"
    by code_simp
  from h t n l show ?thesis by blast
qed

text \<open>
  Claim C4 as stated covers every limit. At the limit \<open>-1\<close> the slice \<open>[:-1]\<close> drops the
  last entry only: two of the three matching notes are returned, which is more than the
  requested limit.
\<close>

theorem get_relevant_memories_negative_limit_counterexample:
  "map mem_timestamp (get_relevant_memories str_atom (memory notes_agent) ''Rome'' (- 1)) = [3, 2] \<and>
   \<not> int (length (get_relevant_memories str_atom (memory notes_agent) ''Rome'' (- 1))) \<le> - 1"
  by code_simp

subsection \<open>Executing an action\<close>

text \<open>
  Claim C3, amended. An action whose \<open>tool_needed\<close> is \<open>None\<close> or the empty string is
  answered by \<open>No tool needed for <type>\<close>; an action that names a tool which is not
  registered is answered by the sentinel \<open>Tool '<name>' not available\<close>. Neither invokes a
  tool or changes the agent. When the registered tool is invoked and raises, the exception
  is caught: exactly one memory entry with satisfaction 2 and the outcome
  \<open>Error: <message>\<close> is appended, the tool was invoked once, and the formatted error
  string is returned.
\<close>

theorem execute_action_outcomes:
  "(tool_needed a = None \<or> tool_needed a = Some [] \<longrightarrow>
      execute_action py_str now s a = (''No tool needed for '' @ action_type a, s, [])) \<and>
   (\<forall>tn. tool_needed a = Some tn \<and> tn \<noteq> [] \<and> tools s tn = None \<longrightarrow>
      execute_action py_str now s a =
        (cross_mark @ '' Tool '' @ [CHR 0x27] @ tn @ [CHR 0x27] @ '' not available'', s, [])) \<and>
   (\<forall>tn f e. tool_needed a = Some tn \<and> tn \<noteq> [] \<and> tools s tn = Some f \<and>
        f (action_parameters a) = Raises e \<longrightarrow>
      execute_action py_str now s a =
        (cross_mark @ '' '' @ action_type a @ '': Error: '' @ e,
         s\<lparr>memory := memory s @
             [\<lparr>mem_type = ''action_execution'', mem_data = execution_data a tn,
               outcome = ''Error: '' @ e, satisfaction = Some 2, mem_timestamp = now\<rparr>]\<rparr>,
         [(tn, action_parameters a)]))"
  by (auto simp: execute_action_def remember_def MemoryEntry_def)

text \<open>
  An action without a tool, an action whose tool is not registered, and a registered tool
  that raises.
\<close>

theorem execute_action_outcomes_witness:
  "tool_needed plain_action = None \<and>
   execute_action str_atom 5 trip_agent plain_action = (''No tool needed for think'', trip_agent, []) \<and>
   tool_needed search_action = Some ''web_search'' \<and> tools trip_agent ''web_search'' = None \<and>
   execute_action str_atom 5 trip_agent search_action =
     (cross_mark @ '' Tool '' @ [CHR 0x27] @ ''web_search'' @ [CHR 0x27] @ '' not available'', trip_agent, []) \<and>
   tools broken_agent ''web_search'' = Some failing_tool \<and>
   failing_tool (action_parameters search_action) = Raises ''service unavailable'' \<and>
   fst (execute_action str_atom 5 broken_agent search_action) =
     cross_mark @ '' research: Error: service unavailable'' \<and>
   memory (fst (snd (execute_action str_atom 5 broken_agent search_action))) =
     [\<lparr>mem_type = ''action_execution'', mem_data = execution_data search_action ''web_search'',
       outcome = ''Error: service unavailable'', satisfaction = Some 2, mem_timestamp = 5\<rparr>] \<and>
   snd (snd (execute_action str_atom 5 broken_agent search_action)) =
     [(''web_search'', [(''topic'', PyStr ''Rome'')])]"
proof -
  have a1: "tool_needed plain_action = None" by (simp add: plain_action_def Action_def)
  have a2: "tool_needed search_action = Some ''web_search''"
    by (simp add: search_action_def Action_def)
  have t2: "tools trip_agent ''web_search'' = None" by (simp add: trip_agent_def agent_simps)
  have t3: "tools broken_agent ''web_search'' = Some failing_tool"
    by (simp add: broken_agent_def agent_simps)
  have f3: "failing_tool (action_parameters search_action) = Raises ''service unavailable''"
    by (simp add: failing_tool_def)
  have m3: "memory broken_agent = []" by (simp add: broken_agent_def agent_simps)
  have e1: "execute_action str_atom 5 trip_agent plain_action
              = (''No tool needed for '' @ action_type plain_action, trip_agent, [])"
    using execute_action_outcomes[of plain_action str_atom 5 trip_agent] a1 by blast
  have e2: "execute_action str_atom 5 trip_agent search_action =
     (cross_mark @ '' Tool '' @ [CHR 0x27] @ ''web_search'' @ [CHR 0x27] @ '' not available'', trip_agent, [])"
    using execute_action_outcomes[of search_action str_atom 5 trip_agent] a2 t2 by simp
  have e3: "execute_action str_atom 5 broken_agent search_action =
        (cross_mark @ '' '' @ action_type search_action @ '': Error: '' @ ''service unavailable'',
         broken_agent\<lparr>memory := memory broken_agent @
             [\<lparr>mem_type = ''action_execution'', mem_data = execution_data search_action ''web_search'',
               outcome = ''Error: '' @ ''service unavailable'', satisfaction = Some 2, mem_timestamp = 5\<rparr>]\<rparr>,
         [(''web_search'', action_parameters search_action)])"
    using execute_action_outcomes[of search_action str_atom 5 broken_agent] a2 t3 f3 by simp
  have p: "action_type plain_action = ''think''" "action_type search_action = ''research''"
      "action_parameters search_action = [(''topic'', PyStr ''Rome'')]"
    by (simp_all add: plain_action_def search_action_def Action_def)
  show ?thesis
    unfolding e1 e2 e3 using a1 a2 t2 t3 f3 m3 p by simp
qed

text \<open>
  Claim C3 as stated: \<open>tool_needed = None\<close> (the default of \<open>Action\<close>) is not a key of the
  tool map, and the answer is not the sentinel.
\<close>

theorem execute_action_unregistered_counterexample:
  "tool_not_registered trip_agent plain_action \<and>
   execute_action str_atom 5 trip_agent plain_action = (''No tool needed for think'', trip_agent, []) \<and>
   \<not> str_in ''not available'' (fst (execute_action str_atom 5 trip_agent plain_action))"
proof -
  have e: "execute_action str_atom 5 trip_agent plain_action = (''No tool needed for think'', trip_agent, [])"
    by (simp add: execute_action_def plain_action_def Action_def)
  have "\<not> str_in ''not available'' ''No tool needed for think''"
    unfolding str_in_def by code_simp
  then show ?thesis
    unfolding e by (simp add: tool_not_registered_def plain_action_def Action_def)
qed


subsection \<open>Goal completion\<close>

lemma satisfied_iff: "satisfied m = satisfaction_above_7 m"
  by (auto simp: satisfied_def satisfaction_above_7_def split: option.splits)

lemma list_ex_satisfied_iff: "list_ex satisfied xs = list_ex satisfaction_above_7 xs"
  by (simp add: list_ex_iff satisfied_iff)

lemma execute_action_frame:
  assumes "execute_action py_str now s a = (r, s1, calls)"
  shows "goals s1 = goals s \<and> active s1 = active s \<and> tools s1 = tools s \<and>
         prefix (memory s) (memory s1)"
  using assms
  by (auto simp: execute_action_def remember_def split: option.splits if_splits tool_outcome.splits)

lemma check_goal_completion_memory [simp]:
  "memory (check_goal_completion py_str now s) = memory s"
  by (simp add: check_goal_completion_def)

lemma check_goal_completion_length [simp]:
  "length (goals (check_goal_completion py_str now s)) = length (goals s)"
  by (simp add: check_goal_completion_def)

lemma check_goal_completion_nth:
  assumes "i < length (goals s)"
  shows "goal_type (goals (check_goal_completion py_str now s) ! i) = goal_type (goals s ! i) \<and>
         (completed (goals (check_goal_completion py_str now s) ! i) \<longleftrightarrow>
            completed (goals s ! i) \<or>
            list_ex satisfaction_above_7
              (get_relevant_memories py_str (memory s) (goal_type (goals s ! i)) 5))"
  using assms
  by (auto simp: check_goal_completion_def complete_def list_ex_satisfied_iff)

lemma window_has_satisfying_memory:
  assumes "list_ex satisfaction_above_7 (get_relevant_memories py_str mem (goal_type g) n)"
  shows "has_satisfying_memory py_str mem g"
proof -
  from assms obtain m where m: "m \<in> set (get_relevant_memories py_str mem (goal_type g) n)"
      "satisfaction_above_7 m" by (auto simp: list_ex_iff)
  from m(1) set_get_relevant_memories have "m \<in> set mem" "relevant py_str (goal_type g) m"
    by blast+
  with m(2) show ?thesis by (auto simp: has_satisfying_memory_def list_ex_iff)
qed

lemma has_satisfying_memory_prefix:
  assumes "prefix mem mem'" and "has_satisfying_memory py_str mem g"
  shows "has_satisfying_memory py_str mem' g"
  using assms set_mono_prefix[OF assms(1)]
  by (auto simp: has_satisfying_memory_def list_ex_iff)

lemma has_satisfying_memory_type:
  "goal_type g = goal_type h \<Longrightarrow> has_satisfying_memory py_str mem g = has_satisfying_memory py_str mem h"
  by (simp add: has_satisfying_memory_def)

lemma run_planning_cycle_active:
  assumes "active s" and "\<exists>g\<in>set (goals s). \<not> completed g"
  shows "\<exists>a r s1 calls. plan_next_action now s = Some a \<and>
           execute_action py_str now s a = (r, s1, calls) \<and>
           run_planning_cycle py_str now s = (r, check_goal_completion py_str now s1)"
proof -
  from assms(2) have "plan_next_action now s \<noteq> None"
    by (simp add: plan_next_action_None)
  then obtain a where a: "plan_next_action now s = Some a" by blast
  obtain r s1 calls where e: "execute_action py_str now s a = (r, s1, calls)"
    by (cases "execute_action py_str now s a") blast
  from assms(1) a e have "run_planning_cycle py_str now s = (r, check_goal_completion py_str now s1)"
    by (simp add: run_planning_cycle_def)
  with a e show ?thesis by blast
qed

lemma run_planning_cycle_cases:
  "snd (run_planning_cycle py_str now s) = s \<or>
   (\<exists>a r s1 calls. execute_action py_str now s a = (r, s1, calls) \<and>
       snd (run_planning_cycle py_str now s) = check_goal_completion py_str now s1)"
proof (cases "active s \<and> plan_next_action now s \<noteq> None")
  case False
  then show ?thesis by (auto simp: run_planning_cycle_def)
next
  case True
  then obtain a where a: "plan_next_action now s = Some a" by blast
  obtain r s1 calls where e: "execute_action py_str now s a = (r, s1, calls)"
    by (cases "execute_action py_str now s a") blast
  from True a e have "snd (run_planning_cycle py_str now s) = check_goal_completion py_str now s1"
    by (simp add: run_planning_cycle_def)
  with e show ?thesis by blast
qed

lemma run_planning_cycle_frame:
  "length (goals (snd (run_planning_cycle py_str now s))) = length (goals s) \<and>
   prefix (memory s) (memory (snd (run_planning_cycle py_str now s))) \<and>
   (\<forall>i<length (goals s).
      goal_type (goals (snd (run_planning_cycle py_str now s)) ! i) = goal_type (goals s ! i) \<and>
      (completed (goals (snd (run_planning_cycle py_str now s)) ! i) \<longrightarrow>
         completed (goals s ! i) \<or>
         has_satisfying_memory py_str (memory (snd (run_planning_cycle py_str now s))) (goals s ! i)))"
proof -
  from run_planning_cycle_cases[of py_str now s] show ?thesis
  proof
    assume "snd (run_planning_cycle py_str now s) = s"
    then show ?thesis by simp
  next
    assume "\<exists>a r s1 calls. execute_action py_str now s a = (r, s1, calls) \<and>
       snd (run_planning_cycle py_str now s) = check_goal_completion py_str now s1"
    then obtain a r s1 calls where e: "execute_action py_str now s a = (r, s1, calls)"
      and c: "snd (run_planning_cycle py_str now s) = check_goal_completion py_str now s1" by blast
    from execute_action_frame[OF e] have g: "goals s1 = goals s"
      and p: "prefix (memory s) (memory s1)" by simp_all
    show ?thesis
      unfolding c using g p check_goal_completion_nth[of _ s1 py_str now]
        window_has_satisfying_memory[of py_str "memory s1" _ 5]
      by auto
  qed
qed

lemma run_cycles_frame:
  "length (goals (run_cycles py_str nows s)) = length (goals s) \<and>
   prefix (memory s) (memory (run_cycles py_str nows s)) \<and>
   (\<forall>i<length (goals s).
      goal_type (goals (run_cycles py_str nows s) ! i) = goal_type (goals s ! i) \<and>
      (completed (goals (run_cycles py_str nows s) ! i) \<longrightarrow>
         completed (goals s ! i) \<or>
         has_satisfying_memory py_str (memory (run_cycles py_str nows s)) (goals s ! i)))"
proof (induction nows arbitrary: s)
  case Nil
  show ?case by simp
next
  case (Cons now nows)
  define s1 where "s1 = snd (run_planning_cycle py_str now s)"
  define s2 where "s2 = run_cycles py_str nows s1"
  have r: "run_cycles py_str (now # nows) s = s2" by (simp add: s1_def s2_def)
  note f1 = run_planning_cycle_frame[of py_str now s, folded s1_def]
  note f2 = Cons.IH[of s1, folded s2_def]
  have len: "length (goals s2) = length (goals s)" using f1 f2 by simp
  have pre: "prefix (memory s) (memory s2)" using f1 f2 by (meson prefix_order.trans)
  have nth: "goal_type (goals s2 ! i) = goal_type (goals s ! i) \<and>
      (completed (goals s2 ! i) \<longrightarrow>
         completed (goals s ! i) \<or> has_satisfying_memory py_str (memory s2) (goals s ! i))"
    if i: "i < length (goals s)" for i
  proof -
    from i f1 have i1: "i < length (goals s1)" by simp
    from f1 i have t1: "goal_type (goals s1 ! i) = goal_type (goals s ! i)"
      and c1: "completed (goals s1 ! i) \<longrightarrow>
         completed (goals s ! i) \<or> has_satisfying_memory py_str (memory s1) (goals s ! i)" by blast+
    from f2 i1 have t2: "goal_type (goals s2 ! i) = goal_type (goals s1 ! i)"
      and c2: "completed (goals s2 ! i) \<longrightarrow>
         completed (goals s1 ! i) \<or> has_satisfying_memory py_str (memory s2) (goals s1 ! i)" by blast+
    from f2 have p2: "prefix (memory s1) (memory s2)" by simp
    have h: "has_satisfying_memory py_str (memory s2) (goals s1 ! i)
               = has_satisfying_memory py_str (memory s2) (goals s ! i)"
      by (rule has_satisfying_memory_type[OF t1])
    from t1 t2 c1 c2 h has_satisfying_memory_prefix[OF p2, of py_str "goals s ! i"]
    show ?thesis by auto
  qed
  from len pre nth show ?case unfolding r by blast
qed

text \<open>
  Claim C1, amended. A planning cycle of an active agent that still has an incomplete goal
  leaves a goal complete exactly if it was complete before or one of the five most recent
  memory entries matching its type string carries a satisfaction above 7. A goal for
  which the memory holds no matching entry with a satisfaction above 7 remains incomplete
  after any number of planning cycles.
\<close>

theorem goal_completion_window:
  "length (goals (snd (run_planning_cycle py_str now s))) = length (goals s) \<and>
   (active s \<and> (\<exists>g\<in>set (goals s). \<not> completed g) \<longrightarrow>
      (\<forall>i<length (goals s).
         completed (goals (snd (run_planning_cycle py_str now s)) ! i) \<longleftrightarrow>
           completed (goals s ! i) \<or>
           list_ex satisfaction_above_7
             (get_relevant_memories py_str (memory (snd (run_planning_cycle py_str now s)))
                (goal_type (goals s ! i)) 5))) \<and>
   length (goals (run_cycles py_str nows s)) = length (goals s) \<and>
   (\<forall>i<length (goals s).
      \<not> completed (goals s ! i) \<and>
      \<not> has_satisfying_memory py_str (memory (run_cycles py_str nows s)) (goals s ! i) \<longrightarrow>
      \<not> completed (goals (run_cycles py_str nows s) ! i))"
proof (intro conjI impI)
  show "length (goals (snd (run_planning_cycle py_str now s))) = length (goals s)"
    using run_planning_cycle_frame[of py_str now s] by simp
next
  assume "active s \<and> (\<exists>g\<in>set (goals s). \<not> completed g)"
  with run_planning_cycle_active[of s now py_str] obtain a r s1 calls where
    e: "execute_action py_str now s a = (r, s1, calls)"
    and c: "run_planning_cycle py_str now s = (r, check_goal_completion py_str now s1)" by blast
  from execute_action_frame[OF e] have g: "goals s1 = goals s" by simp
  show "\<forall>i<length (goals s).
         completed (goals (snd (run_planning_cycle py_str now s)) ! i) \<longleftrightarrow>
           completed (goals s ! i) \<or>
           list_ex satisfaction_above_7
             (get_relevant_memories py_str (memory (snd (run_planning_cycle py_str now s)))
                (goal_type (goals s ! i)) 5)"
    unfolding c using g check_goal_completion_nth[of _ s1 py_str now] by simp
next
  show "length (goals (run_cycles py_str nows s)) = length (goals s)"
    using run_cycles_frame[of py_str nows s] by simp
next
  show "\<forall>i<length (goals s).
      \<not> completed (goals s ! i) \<and>
      \<not> has_satisfying_memory py_str (memory (run_cycles py_str nows s)) (goals s ! i) \<longrightarrow>
      \<not> completed (goals (run_cycles py_str nows s) ! i)"
    using run_cycles_frame[of py_str nows s] by blast
qed



text \<open>
  The tool of \<open>research_agent\<close> reports success on its goal, which one cycle completes.
  The tool of \<open>broken_agent\<close> raises in each of three cycles: three entries of
  satisfaction 2 are stored and the goal stays incomplete.
\<close>

theorem goal_completion_window_witness:
  "active research_agent \<and> (\<exists>g\<in>set (goals research_agent). \<not> completed g) \<and>
   completed (goals (snd (run_planning_cycle str_atom 1 research_agent)) ! 0) \<and>
   \<not> completed (goals broken_agent ! 0) \<and>
   length (memory (run_cycles str_atom [1, 2, 3] broken_agent)) = 3 \<and>
   \<not> has_satisfying_memory str_atom (memory (run_cycles str_atom [1, 2, 3] broken_agent))
        (goals broken_agent ! 0) \<and>
   \<not> completed (goals (run_cycles str_atom [1, 2, 3] broken_agent) ! 0)"
proof -
  have a: "active research_agent" by (simp add: research_agent_def agent_simps)
  have g: "\<exists>g\<in>set (goals research_agent). \<not> completed g"
    by (simp add: research_agent_def agent_simps)
  have l: "0 < length (goals research_agent)" by (simp add: research_agent_def agent_simps)
  have w: "list_ex satisfaction_above_7
             (get_relevant_memories str_atom (memory (snd (run_planning_cycle str_atom 1 research_agent)))
                (goal_type (goals research_agent ! 0)) 5)"
    by code_simp
  from goal_completion_window[of str_atom 1 research_agent "[]"] a g l w
  have c: "completed (goals (snd (run_planning_cycle str_atom 1 research_agent)) ! 0)" by blast
  have l2: "0 < length (goals broken_agent)" by (simp add: broken_agent_def agent_simps)
  have n: "\<not> completed (goals broken_agent ! 0)" by (simp add: broken_agent_def agent_simps)
  have m: "length (memory (run_cycles str_atom [1, 2, 3] broken_agent)) = 3" by code_simp
  have h: "\<not> has_satisfying_memory str_atom (memory (run_cycles str_atom [1, 2, 3] broken_agent))
        (goals broken_agent ! 0)" by code_simp
  from goal_completion_window[of str_atom 1 broken_agent "[1, 2, 3]"] l2 n h
  have "\<not> completed (goals (run_cycles str_atom [1, 2, 3] broken_agent) ! 0)" by blast
  with a g c n m h show ?thesis by blast
qed

text \<open>
  Claim C1 as stated: the oldest of six matching entries of \<open>stale_agent\<close> carries
  satisfaction 9, but only the five most recent matches are inspected, so the goal is not
  marked complete.
\<close>

theorem goal_completion_counterexample:
  "active stale_agent \<and> \<not> completed (goals stale_agent ! 0) \<and>
   has_satisfying_memory str_atom (memory (snd (run_planning_cycle str_atom 7 stale_agent)))
     (goals stale_agent ! 0) \<and>
   \<not> completed (goals (snd (run_planning_cycle str_atom 7 stale_agent)) ! 0)"
  by code_simp

section \<open>Properties of the budget planner\<close>

subsection \<open>The constructed planner\<close>



subsection \<open>Reallocation suggestions\<close>










lemma available_categories_stable:
  "filter (\<lambda>x. priority_order (snd (snd x)) = k) (available_categories s oc) =
   filter (\<lambda>x. priority_order (snd (snd x)) = k)
     (filter (\<lambda>x. 0 < fst (snd x))
        (map (\<lambda>c. (c, allocated (categories s c) - spent (categories s c), cat_priority (categories s c)))
           (filter (\<lambda>c. name_of c \<noteq> oc) all_categories)))"
  unfolding available_categories_def by (rule sort_key_stable)




subsection \<open>Tracking an expense\<close>

lemma category_of_name_of [simp]: "category_of (name_of c) = Some c"
  by (cases c) (simp_all add: category_of_def all_categories_def)


lemma category_of_Some: "category_of n = Some c \<longleftrightarrow> n = name_of c"
proof
  assume "category_of n = Some c"
  then show "n = name_of c"
    by (auto simp: category_of_def all_categories_def split: if_splits)
next
  assume "n = name_of c"
  then show "category_of n = Some c" by simp
qed


lemma str_in_append_right: "str_in x b \<Longrightarrow> str_in x (a @ b)"
  unfolding str_in_def by (metis sublist_append)

lemma str_in_append_left: "str_in x a \<Longrightarrow> str_in x (a @ b)"
  unfolding str_in_def by (metis sublist_append)

lemma str_in_self_suffix: "str_in x (a @ x)"
  unfolding str_in_def by simp



lemma str_in_drop_prefix: "str_in (a @ x) y \<Longrightarrow> str_in x y"
  unfolding str_in_def sublist_def by (metis append.assoc)


lemma name_of_inject [simp]: "name_of c = name_of c' \<longleftrightarrow> c = c'"
  by (cases c; cases c') simp_all









section \<open>Properties of the destination and attraction scores\<close>

lemma analyze_destination_fields:
  "overall_score (analyze_destination g city w p)
     = py_round 1 (min 10 (max 1 (destination_score g city w p)))"
  "analysis_recommended (analyze_destination g city w p) = (6 \<le> destination_score g city w p)"
proof -
  define A where "A \<longleftrightarrow> fc_forecast w = ''sunny'' \<and> ''outdoor activities'' \<in> set (preferences g)"
  define R where "R \<longleftrightarrow> fc_forecast w = ''rainy''"
  define B where "B \<longleftrightarrow> rat_of_int (avg_hotel_price p * duration g) \<le> rat_of_int (budget g) * (6 / 10)"
  define C where "C \<longleftrightarrow> ''museums'' \<in> set (preferences g) \<and> lower city \<in> set [''paris'', ''berlin'']"
  define D where "D \<longleftrightarrow> ''nightlife'' \<in> set (preferences g) \<and> lower city \<in> set [''berlin'', ''amsterdam'']"
  have C': "(''museums'' \<in> set (preferences g) \<and> lower city \<in> {''paris'', ''berlin''}) = C"
    unfolding C_def by simp
  have D': "(''nightlife'' \<in> set (preferences g) \<and> lower city \<in> {''berlin'', ''amsterdam''}) = D"
    unfolding D_def by simp
  have s: "destination_score g city w p =
      5 + (if A then 2 else if R then - 1 else 0) + (if B then 1 else - 2)
        + (if C then 15 / 10 else 0) + (if D then 1 else 0)"
    unfolding destination_score_def C' D' A_def R_def B_def by (rule refl)
  have a: "analyze_destination g city w p =
     (let (score1, reasons1) =
            (if A then (5 + 2, [''Great weather for outdoor activities''])
             else if R then (5 - 1, [''Rainy weather might limit outdoor activities''])
             else (5, []));
          daily_cost = avg_hotel_price p;
          (score2, reasons2) =
            (if B then (score1 + 1, reasons1 @ [''Within budget range''])
             else (score1 - 2, reasons1 @ [''Might be expensive for the budget'']));
          (score3, reasons3) =
            (if C then (score2 + 15 / 10, reasons2 @ [''Excellent museums''])
             else (score2, reasons2));
          (score4, reasons4) =
            (if D then (score3 + 1, reasons3 @ [''Great nightlife scene''])
             else (score3, reasons3))
      in \<lparr>overall_score = py_round 1 (min 10 (max 1 score4)), reasons = reasons4,
          analysis_recommended = (6 \<le> score4)\<rparr>)"
    unfolding analyze_destination_def A_def R_def B_def C_def D_def Let_def by (rule refl)
  show "overall_score (analyze_destination g city w p)
     = py_round 1 (min 10 (max 1 (destination_score g city w p)))"
    unfolding a s by (cases A; cases R; cases B; cases C; cases D) simp_all
  show "analysis_recommended (analyze_destination g city w p) = (6 \<le> destination_score g city w p)"
    unfolding a s by (cases A; cases R; cases B; cases C; cases D) simp_all
qed

lemma py_round_half: "py_round 1 (of_int k / 2) = of_int k / 2"
proof -
  have "(of_int k / 2 :: rat) * 10 ^ 1 = of_int (5 * k)" by simp
  then have "round_half_even ((of_int k / 2 :: rat) * 10 ^ 1) = 5 * k"
    by (simp only: round_half_even_def Let_def floor_of_int) simp
  then show ?thesis by (simp add: py_round_def)
qed

lemma destination_score_half:
  "\<exists>k::int. destination_score g city w p = of_int k / 2 \<and> 4 \<le> k \<and> k \<le> 21"
proof -
  define a :: int where "a = (if fc_forecast w = ''sunny'' \<and> ''outdoor activities'' \<in> set (preferences g) then 4
          else if fc_forecast w = ''rainy'' then - 2 else 0)"
  define b :: int where "b = (if rat_of_int (avg_hotel_price p * duration g) \<le> rat_of_int (budget g) * (6 / 10) then 2 else - 4)"
  define c :: int where "c = (if ''museums'' \<in> set (preferences g) \<and> lower city \<in> {''paris'', ''berlin''} then 3 else 0)"
  define d :: int where "d = (if ''nightlife'' \<in> set (preferences g) \<and> lower city \<in> {''berlin'', ''amsterdam''} then 2 else 0)"
  have "destination_score g city w p = of_int (10 + a + b + c + d) / 2"
    unfolding destination_score_def a_def b_def c_def d_def by simp
  moreover have "4 \<le> 10 + a + b + c + d" "10 + a + b + c + d \<le> 21"
    unfolding a_def b_def c_def d_def by simp_all
  ultimately show ?thesis by blast
qed

lemma clamp_half: "min 10 (max 1 (of_int k / 2 :: rat)) = of_int (min 20 (max 2 k)) / 2"
  by (simp add: min_def max_def)

lemma overall_score_clamped:
  "overall_score (analyze_destination g city w p) = min 10 (max 1 (destination_score g city w p))"
proof -
  obtain k :: int where k: "destination_score g city w p = of_int k / 2"
    using destination_score_half by blast
  show ?thesis
    unfolding analyze_destination_fields k clamp_half by (rule py_round_half)
qed


lemma inner_fold:
  "fold (\<lambda>keyword score. if str_in keyword a then score + 3 / 10 else score) kws (s::rat)
     = s + 3 / 10 * of_nat (length (filter (\<lambda>keyword. str_in keyword a) kws))"
  by (induction kws arbitrary: s) (simp_all add: algebra_simps)

lemma outer_fold:
  "fold (\<lambda>interest score.
            case map_of interest_keywords (lower interest) of
              None \<Rightarrow> score
            | Some keywords \<Rightarrow>
                fold (\<lambda>keyword score. if str_in keyword a then score + 3 / 10 else score)
                     keywords score)
        interests (s::rat)
     = s + 3 / 10 * of_nat (sum_list (map (\<lambda>interest.
                      case map_of interest_keywords (lower interest) of
                        None \<Rightarrow> 0
                      | Some keywords \<Rightarrow> length (filter (\<lambda>keyword. str_in keyword a) keywords))
                   interests))"
proof (induction interests arbitrary: s)
  case Nil
  show ?case by simp
next
  case (Cons i ints)
  show ?case
  proof (cases "map_of interest_keywords (lower i)")
    case None
    then show ?thesis using Cons.IH[of s] by simp
  next
    case (Some kws)
    then show ?thesis
      using Cons.IH[of "s + 3 / 10 * of_nat (length (filter (\<lambda>keyword. str_in keyword a) kws))"]
      by (simp add: inner_fold algebra_simps)
  qed
qed

lemma score_hits:
  "score_attraction_for_interests a ints = min (3 / 10 + 3 / 10 * of_nat (keyword_hits a ints)) 1"
  by (simp add: score_attraction_for_interests_def Let_def outer_fold keyword_hits_def)

lemma score_bounds:
  "3 / 10 \<le> score_attraction_for_interests a ints \<and> score_attraction_for_interests a ints \<le> 1"
  unfolding score_hits by (simp add: min_def)

lemma score_above_half:
  "1 / 2 < score_attraction_for_interests a ints \<longleftrightarrow> 0 < keyword_hits a ints"
proof (cases "keyword_hits a ints")
  case 0
  then show ?thesis unfolding score_hits by simp
next
  case (Suc n)
  define x :: rat where "x = 3 / 10 + 3 / 10 * of_nat (Suc n)"
  have e: "x = 6 / 10 + 3 / 10 * of_nat n" unfolding x_def by (simp add: field_simps)
  have "0 \<le> 3 / 10 * (of_nat n :: rat)" by simp
  with e have "6 / 10 \<le> x" by linarith
  then have "1 / 2 < min x 1" by (cases "x \<le> 1") (simp_all add: min_def)
  then show ?thesis unfolding score_hits Suc x_def by simp
qed

lemma keyword_hits_pos:
  "0 < keyword_hits a ints \<longleftrightarrow>
     (\<exists>interest\<in>set ints. \<exists>keywords. map_of interest_keywords (lower interest) = Some keywords \<and>
        (\<exists>keyword\<in>set keywords. str_in keyword (lower a)))"
proof (induction "ints")
  case Nil
  show ?case by (simp add: keyword_hits_def)
next
  case (Cons i ints)
  have h: "keyword_hits a (i # ints) =
      (case map_of interest_keywords (lower i) of None \<Rightarrow> 0
       | Some keywords \<Rightarrow> length (filter (\<lambda>keyword. str_in keyword (lower a)) keywords))
      + keyword_hits a ints"
    by (simp add: keyword_hits_def)
  show ?case
  proof (cases "map_of interest_keywords (lower i)")
    case None
    then show ?thesis using Cons.IH h by simp
  next
    case (Some kws)
    have "0 < length (filter (\<lambda>keyword. str_in keyword (lower a)) kws)
            \<longleftrightarrow> (\<exists>keyword\<in>set kws. str_in keyword (lower a))"
      by (simp add: filter_empty_conv)
    then show ?thesis using Cons.IH h Some by auto
  qed
qed

lemma research_attractions_entries:
  assumes "e \<in> set (research_attractions d ints)"
  shows "attr_score e = score_attraction_for_interests (attr_name e) ints \<and>
         attr_recommended e = (1 / 2 < attr_score e)"
proof -
  have "set (research_attractions d ints) \<subseteq>
          (\<lambda>attraction. \<lparr>attr_name = attraction,
                          attr_score = score_attraction_for_interests attraction ints,
                          attr_recommended = (5 / 10 < score_attraction_for_interests attraction ints),
                          interest_match = get_interest_match attraction ints\<rparr>) ` UNIV"
    unfolding research_attractions_def Let_def
    using set_slice_to[of 5] by (fastforce simp: set_sorted_reverse)
  with assms show ?thesis by auto
qed

lemma research_attractions_sorted:
  "sorted_wrt (\<lambda>a b. attr_score b \<le> attr_score a) (research_attractions d ints) \<and>
   length (research_attractions d ints) \<le> 5"
proof -
  have "sorted_wrt (\<lambda>a b. attr_score b \<le> attr_score a) (take 5 (sorted_reverse attr_score xs))" for xs
    using sorted_reverse_descending[of attr_score xs] by (rule sorted_wrt_take)
  then show ?thesis
    by (simp add: research_attractions_def Let_def slice_to_def)
qed

text \<open>
  Claim C8, amended. \<open>analyze_destination\<close> starts at the base score 5, adds 2 for sunny
  weather wanted for outdoor activities or subtracts 1 for rain, adds 1 for a hotel price
  within 60 percent of the budget or subtracts 2 otherwise, and adds 1.5 and 1 for museums
  and nightlife in the listed cities; the reported score is this sum clamped to [1, 10],
  and the destination is recommended exactly when the sum is at least 6.
  \<open>_score_attraction_for_interests\<close> starts at 0.3, adds 0.3 for each keyword hit and caps
  the result at 1; an attraction is recommended exactly when its score is above 0.5.
\<close>

theorem scoring_rules:
  "overall_score (analyze_destination g city w p) = min 10 (max 1 (destination_score g city w p)) \<and>
   1 \<le> overall_score (analyze_destination g city w p) \<and>
   overall_score (analyze_destination g city w p) \<le> 10 \<and>
   analysis_recommended (analyze_destination g city w p) = (6 \<le> destination_score g city w p) \<and>
   score_attraction_for_interests a ints = min (3 / 10 + 3 / 10 * of_nat (keyword_hits a ints)) 1 \<and>
   score_attraction_for_interests a ints \<le> 1 \<and>
   (\<forall>e\<in>set (research_attractions d ints).
      attr_score e = score_attraction_for_interests (attr_name e) ints \<and>
      attr_recommended e = (1 / 2 < attr_score e))"
proof (intro conjI ballI)
  show o: "overall_score (analyze_destination g city w p) = min 10 (max 1 (destination_score g city w p))"
    by (rule overall_score_clamped)
  show "1 \<le> overall_score (analyze_destination g city w p)" unfolding o by simp
  show "overall_score (analyze_destination g city w p) \<le> 10" unfolding o by simp
  show "analysis_recommended (analyze_destination g city w p) = (6 \<le> destination_score g city w p)"
    by (rule analyze_destination_fields)
  show "score_attraction_for_interests a ints = min (3 / 10 + 3 / 10 * of_nat (keyword_hits a ints)) 1"
    by (rule score_hits)
  show "score_attraction_for_interests a ints \<le> 1" using score_bounds by blast
next
  fix e assume e: "e \<in> set (research_attractions d ints)"
  from research_attractions_entries[OF e]
  show "attr_score e = score_attraction_for_interests (attr_name e) ints"
    and "attr_recommended e = (1 / 2 < attr_score e)" by blast+
qed

text \<open>
  Berlin in the sun for a traveller who likes the outdoors, museums and nightlife scores
  10.5, reported as 10. The Gothic Quarter has three keyword hits and the capped score 1.
\<close>

theorem scoring_rules_witness:
  "destination_score outdoor_goals ''Berlin'' sunny_berlin berlin_prices = 21 / 2 \<and>
   overall_score (analyze_destination outdoor_goals ''Berlin'' sunny_berlin berlin_prices) = 10 \<and>
   analysis_recommended (analyze_destination outdoor_goals ''Berlin'' sunny_berlin berlin_prices) \<and>
   keyword_hits ''Gothic Quarter'' [''history'', ''culture'', ''food''] = 3 \<and>
   score_attraction_for_interests ''Gothic Quarter'' [''history'', ''culture'', ''food''] = 1 \<and>
   map (\<lambda>e. (attr_name e, attr_score e, attr_recommended e)) (research_attractions ''Paris'' [''art'']) =
     [(''Louvre Museum'', 9 / 10, True), (''Eiffel Tower'', 3 / 10, False),
      (''Notre-Dame'', 3 / 10, False), (''Arc de Triomphe'', 3 / 10, False),
      (''Montmartre'', 3 / 10, False)] \<and>
   list_all (\<lambda>e. attr_recommended e = (1 / 2 < attr_score e)) (research_attractions ''Paris'' [''art''])"
proof -
  note t = scoring_rules[of outdoor_goals "''Berlin''" sunny_berlin berlin_prices
      "''Gothic Quarter''" "[''history'', ''culture'', ''food'']" "''Paris''"]
  note u = scoring_rules[of outdoor_goals "''Berlin''" sunny_berlin berlin_prices
      "''Gothic Quarter''" "[''art'']" "''Paris''"]
  have s: "destination_score outdoor_goals ''Berlin'' sunny_berlin berlin_prices = 21 / 2"
    by code_simp
  have o: "overall_score (analyze_destination outdoor_goals ''Berlin'' sunny_berlin berlin_prices) = 10"
    using t[THEN conjunct1] unfolding s by simp
  have r: "analysis_recommended (analyze_destination outdoor_goals ''Berlin'' sunny_berlin berlin_prices)"
    using t[THEN conjunct2, THEN conjunct2, THEN conjunct2, THEN conjunct1] unfolding s by simp
  have h: "keyword_hits ''Gothic Quarter'' [''history'', ''culture'', ''food''] = 3" by code_simp
  have c: "score_attraction_for_interests ''Gothic Quarter'' [''history'', ''culture'', ''food''] = 1"
    using t[THEN conjunct2, THEN conjunct2, THEN conjunct2, THEN conjunct2, THEN conjunct1]
    unfolding h by simp
  have n: "map (\<lambda>e. (attr_name e, attr_score e, attr_recommended e)) (research_attractions ''Paris'' [''art'']) =
     [(''Louvre Museum'', 9 / 10, True), (''Eiffel Tower'', 3 / 10, False),
      (''Notre-Dame'', 3 / 10, False), (''Arc de Triomphe'', 3 / 10, False),
      (''Montmartre'', 3 / 10, False)]"
    by code_simp
  have l: "list_all (\<lambda>e. attr_recommended e = (1 / 2 < attr_score e)) (research_attractions ''Paris'' [''art''])"
    using u[THEN conjunct2, THEN conjunct2, THEN conjunct2, THEN conjunct2, THEN conjunct2, THEN conjunct2]
    by (simp add: list_all_iff)
  show ?thesis by (intro conjI s o r h c n l)
qed

text \<open>
  Claim C8 as stated: Prague under clouds at 60 a night scores exactly 6 (the base 5 plus 1
  for the budget, with nothing subtracted for the weather, museum and nightlife conditions
  that do not hold), which is not above 6, and is recommended. An attraction without a
  keyword hit keeps the base score 0.3: no penalty is subtracted.
\<close>

theorem recommended_at_six_counterexample:
  "destination_score my_trip_goals ''Prague'' cloudy_prague prague_prices = 6 \<and>
   overall_score (analyze_destination my_trip_goals ''Prague'' cloudy_prague prague_prices) = 6 \<and>
   analysis_recommended (analyze_destination my_trip_goals ''Prague'' cloudy_prague prague_prices) \<and>
   \<not> 6 < overall_score (analyze_destination my_trip_goals ''Prague'' cloudy_prague prague_prices) \<and>
   \<not> 6 < destination_score my_trip_goals ''Prague'' cloudy_prague prague_prices \<and>
   score_attraction_for_interests ''Trevi Fountain'' [''art''] = 3 / 10"
  by code_simp


section \<open>Properties of the trip researcher\<close>

subsection \<open>Unknown destinations and months\<close>

lemma knowledge_base_unknown:
  "destination \<notin> {''Rome'', ''Paris'', ''Barcelona''} \<Longrightarrow> map_of knowledge_base destination = None"
  by (simp add: knowledge_base_def)

lemma knowledge_base_known:
  "map_of knowledge_base destination = Some d \<Longrightarrow>
     map_of (budget_ranges d) ''mid-range'' \<noteq> None \<and>
     set (map fst (weather d)) = {''June'', ''July'', ''August'', ''September''}"
  by (auto simp: knowledge_base_def split: if_splits)

lemma default_tips_kept:
  "filter (\<lambda>tip. list_ex (\<lambda>word. str_in word (lower tip)) [''free'', ''save'', ''advance'', ''local''])
     [''Research local customs'', ''Book accommodations in advance'']
   = [''Research local customs'', ''Book accommodations in advance'']"
  by code_simp

lemma research_weather_unknown_destination:
  assumes "destination \<notin> {''Rome'', ''Paris'', ''Barcelona''}"
  shows "research_weather destination travel_month = default_weather"
  by (simp add: research_weather_def knowledge_base_unknown[OF assms])

lemma research_weather_unknown_month:
  assumes "travel_month \<notin> {''June'', ''July'', ''August'', ''September''}"
  shows "research_weather destination travel_month = default_weather"
proof (cases "map_of knowledge_base destination")
  case None
  then show ?thesis by (simp add: research_weather_def)
next
  case (Some d)
  from knowledge_base_known[OF Some] assms have "travel_month \<notin> fst ` set (weather d)" by simp
  then have "map_of (weather d) travel_month = None" by (simp add: map_of_eq_None_iff)
  with Some show ?thesis by (simp add: research_weather_def)
qed

lemma get_budget_insights_unknown:
  assumes "destination \<notin> {''Rome'', ''Paris'', ''Barcelona''}"
  shows "get_budget_insights destination budget_type =
     Inr \<lparr>insight_daily_budget =
             (if budget_type = ''budget'' then 50 else if budget_type = ''luxury'' then 200 else 100),
          budget_breakdown =
            [(''accommodation'',
                rat_of_int (if budget_type = ''budget'' then 50 else if budget_type = ''luxury'' then 200 else 100) * (4 / 10)),
             (''food'',
                rat_of_int (if budget_type = ''budget'' then 50 else if budget_type = ''luxury'' then 200 else 100) * (3 / 10)),
             (''activities'',
                rat_of_int (if budget_type = ''budget'' then 50 else if budget_type = ''luxury'' then 200 else 100) * (2 / 10)),
             (''transport'',
                rat_of_int (if budget_type = ''budget'' then 50 else if budget_type = ''luxury'' then 200 else 100) * (1 / 10))],
          money_saving_tips = [''Research local customs'', ''Book accommodations in advance''],
          splurge_recommendations =
            (if budget_type = ''luxury''
             then [''Premium local experiences'', ''Fine dining'', ''Private guided tours''] else [])\<rparr>"
proof -
  have k: "map_of knowledge_base destination = None" by (rule knowledge_base_unknown[OF assms])
  have s: "get_splurge_recommendations destination
             = [''Premium local experiences'', ''Fine dining'', ''Private guided tours'']"
    using assms by (simp add: get_splurge_recommendations_def)
  show ?thesis
    unfolding get_budget_insights_def k Let_def option.case default_tips_kept s
    by simp
qed

lemma get_budget_insights_returns: "\<exists>r. get_budget_insights destination budget_type = Inr r"
proof (cases "map_of knowledge_base destination")
  case None
  then show ?thesis by (simp add: get_budget_insights_def Let_def)
next
  case (Some d)
  from knowledge_base_known[OF Some] obtain mid where "map_of (budget_ranges d) ''mid-range'' = Some mid"
    by blast
  with Some show ?thesis by (simp add: get_budget_insights_def Let_def)
qed

text \<open>
  Claim C9. For a destination or a month that the knowledge base does not hold,
  \<open>research_weather\<close> returns the default weather record. For a destination that it does
  not hold, \<open>get_budget_insights\<close> works from the default budget ranges (50, 100, 200) and
  the default tips. Neither lookup raises: \<open>research_weather\<close> has no failing branch, and
  \<open>get_budget_insights\<close> returns a result for every destination and budget type.
\<close>

theorem unknown_lookup_defaults:
  "default_weather =
     \<lparr>temperature = ''15-25'' @ degrees, report_description = ''Typical European weather'',
      rain_probability = ''Moderate'',
      packing_advice = ''Pack layers and bring a light rain jacket''\<rparr> \<and>
   (destination \<notin> {''Rome'', ''Paris'', ''Barcelona''} \<or>
    travel_month \<notin> {''June'', ''July'', ''August'', ''September''} \<longrightarrow>
      research_weather destination travel_month = default_weather) \<and>
   (destination \<notin> {''Rome'', ''Paris'', ''Barcelona''} \<longrightarrow>
      get_budget_insights destination budget_type =
        Inr \<lparr>insight_daily_budget =
               (if budget_type = ''budget'' then 50 else if budget_type = ''luxury'' then 200 else 100),
             budget_breakdown =
               [(''accommodation'',
                   rat_of_int (if budget_type = ''budget'' then 50
                               else if budget_type = ''luxury'' then 200 else 100) * (4 / 10)),
                (''food'',
                   rat_of_int (if budget_type = ''budget'' then 50
                               else if budget_type = ''luxury'' then 200 else 100) * (3 / 10)),
                (''activities'',
                   rat_of_int (if budget_type = ''budget'' then 50
                               else if budget_type = ''luxury'' then 200 else 100) * (2 / 10)),
                (''transport'',
                   rat_of_int (if budget_type = ''budget'' then 50
                               else if budget_type = ''luxury'' then 200 else 100) * (1 / 10))],
             money_saving_tips = [''Research local customs'', ''Book accommodations in advance''],
             splurge_recommendations =
               (if budget_type = ''luxury''
                then [''Premium local experiences'', ''Fine dining'', ''Private guided tours''] else [])\<rparr>) \<and>
   (\<exists>r. get_budget_insights destination budget_type = Inr r)"
proof (intro conjI impI)
  show "default_weather =
     \<lparr>temperature = ''15-25'' @ degrees, report_description = ''Typical European weather'',
      rain_probability = ''Moderate'',
      packing_advice = ''Pack layers and bring a light rain jacket''\<rparr>"
    by (rule default_weather_def)
next
  assume "destination \<notin> {''Rome'', ''Paris'', ''Barcelona''} \<or>
    travel_month \<notin> {''June'', ''July'', ''August'', ''September''}"
  then show "research_weather destination travel_month = default_weather"
  proof
    assume "destination \<notin> {''Rome'', ''Paris'', ''Barcelona''}"
    then show ?thesis by (rule research_weather_unknown_destination)
  next
    assume "travel_month \<notin> {''June'', ''July'', ''August'', ''September''}"
    then show ?thesis by (rule research_weather_unknown_month)
  qed
next
  assume "destination \<notin> {''Rome'', ''Paris'', ''Barcelona''}"
  then show "get_budget_insights destination budget_type =
        Inr \<lparr>insight_daily_budget =
               (if budget_type = ''budget'' then 50 else if budget_type = ''luxury'' then 200 else 100),
             budget_breakdown =
               [(''accommodation'',
                   rat_of_int (if budget_type = ''budget'' then 50
                               else if budget_type = ''luxury'' then 200 else 100) * (4 / 10)),
                (''food'',
                   rat_of_int (if budget_type = ''budget'' then 50
                               else if budget_type = ''luxury'' then 200 else 100) * (3 / 10)),
                (''activities'',
                   rat_of_int (if budget_type = ''budget'' then 50
                               else if budget_type = ''luxury'' then 200 else 100) * (2 / 10)),
                (''transport'',
                   rat_of_int (if budget_type = ''budget'' then 50
                               else if budget_type = ''luxury'' then 200 else 100) * (1 / 10))],
             money_saving_tips = [''Research local customs'', ''Book accommodations in advance''],
             splurge_recommendations =
               (if budget_type = ''luxury''
                then [''Premium local experiences'', ''Fine dining'', ''Private guided tours''] else [])\<rparr>"
    by (rule get_budget_insights_unknown)
next
  show "\<exists>r. get_budget_insights destination budget_type = Inr r"
    by (rule get_budget_insights_returns)
qed

text \<open>An unknown destination, a known destination in an unknown month, and an unknown budget type.\<close>

theorem unknown_lookup_defaults_witness:
  "''Lisbon'' \<notin> {''Rome'', ''Paris'', ''Barcelona''} \<and>
   research_weather ''Lisbon'' ''June'' = default_weather \<and>
   ''May'' \<notin> {''June'', ''July'', ''August'', ''September''} \<and>
   research_weather ''Rome'' ''May'' = default_weather \<and>
   insight_daily_budget (projr (get_budget_insights ''Lisbon'' ''luxury'')) = 200 \<and>
   money_saving_tips (projr (get_budget_insights ''Lisbon'' ''luxury''))
     = [''Research local customs'', ''Book accommodations in advance''] \<and>
   get_budget_insights ''Lisbon'' ''hostel'' =
     Inr \<lparr>insight_daily_budget = 100,
          budget_breakdown =
            [(''accommodation'', 40), (''food'', 30), (''activities'', 20), (''transport'', 10)],
          money_saving_tips = [''Research local customs'', ''Book accommodations in advance''],
          splurge_recommendations = []\<rparr>"
proof -
  have l: "''Lisbon'' \<notin> {''Rome'', ''Paris'', ''Barcelona''}" by simp
  have m: "''May'' \<notin> {''June'', ''July'', ''August'', ''September''}" by simp
  note t = unknown_lookup_defaults[of "''Lisbon''" "''June''" "''luxury''"]
  note u = unknown_lookup_defaults[of "''Rome''" "''May''" "''luxury''"]
  note v = unknown_lookup_defaults[of "''Lisbon''" "''June''" "''hostel''"]
  have w1: "research_weather ''Lisbon'' ''June'' = default_weather"
    using t[THEN conjunct2, THEN conjunct1] l by blast
  have w2: "research_weather ''Rome'' ''May'' = default_weather"
    using u[THEN conjunct2, THEN conjunct1] m by blast
  have b1: "insight_daily_budget (projr (get_budget_insights ''Lisbon'' ''luxury'')) = 200"
     "money_saving_tips (projr (get_budget_insights ''Lisbon'' ''luxury''))
        = [''Research local customs'', ''Book accommodations in advance'']"
    using t[THEN conjunct2, THEN conjunct2, THEN conjunct1, THEN mp, OF l] by simp_all
  have b2: "get_budget_insights ''Lisbon'' ''hostel'' =
     Inr \<lparr>insight_daily_budget = 100,
          budget_breakdown =
            [(''accommodation'', 40), (''food'', 30), (''activities'', 20), (''transport'', 10)],
          money_saving_tips = [''Research local customs'', ''Book accommodations in advance''],
          splurge_recommendations = []\<rparr>"
    using v[THEN conjunct2, THEN conjunct2, THEN conjunct1, THEN mp, OF l] by simp
  show ?thesis by (intro conjI l m w1 w2 b1 b2)
qed


subsection \<open>Ranked attractions\<close>

text \<open>
  Claim C10. \<open>research_attractions\<close> returns at most 5 entries in non-increasing order of
  score; every score lies in [0.3, 1]; an entry is recommended exactly when its score is
  above 0.5, which is exactly when a keyword of one of the caller's recognized interests
  occurs in the lower-cased attraction name.
\<close>

theorem research_attractions_ranked:
  "length (research_attractions d ints) \<le> 5 \<and>
   sorted_wrt (\<lambda>a b. attr_score b \<le> attr_score a) (research_attractions d ints) \<and>
   (\<forall>e\<in>set (research_attractions d ints).
      3 / 10 \<le> attr_score e \<and> attr_score e \<le> 1 \<and>
      (attr_recommended e \<longleftrightarrow> 1 / 2 < attr_score e) \<and>
      (attr_recommended e \<longleftrightarrow>
         (\<exists>interest\<in>set ints. \<exists>keywords.
            map_of interest_keywords (lower interest) = Some keywords \<and>
            (\<exists>keyword\<in>set keywords. str_in keyword (lower (attr_name e))))))"
proof (intro conjI ballI)
  show "length (research_attractions d ints) \<le> 5" using research_attractions_sorted by blast
  show "sorted_wrt (\<lambda>a b. attr_score b \<le> attr_score a) (research_attractions d ints)"
    using research_attractions_sorted by blast
next
  fix e assume e: "e \<in> set (research_attractions d ints)"
  note r = research_attractions_entries[OF e]
  from r show "3 / 10 \<le> attr_score e" "attr_score e \<le> 1"
    using score_bounds[of "attr_name e" ints] by simp_all
  from r show h: "attr_recommended e \<longleftrightarrow> 1 / 2 < attr_score e" by simp
  from r have "attr_recommended e \<longleftrightarrow> 0 < keyword_hits (attr_name e) ints"
    using score_above_half[of "attr_name e" ints] by simp
  then show "attr_recommended e \<longleftrightarrow>
         (\<exists>interest\<in>set ints. \<exists>keywords.
            map_of interest_keywords (lower interest) = Some keywords \<and>
            (\<exists>keyword\<in>set keywords. str_in keyword (lower (attr_name e))))"
    by (simp only: keyword_hits_pos)
qed

text \<open>
  Barcelona for culture, food and history (\<open>sports\<close> is not a recognized interest): the
  Gothic Quarter is capped at 1, and the three attractions without a hit keep their
  order.
\<close>

theorem research_attractions_ranked_witness:
  "map (\<lambda>e. (attr_name e, attr_score e, attr_recommended e))
       (research_attractions ''Barcelona'' [''Culture'', ''food'', ''history'', ''sports''])
     = [(''Gothic Quarter'', 1, True), (''Las Ramblas'', 9 / 10, True),
        (''Sagrada Familia'', 3 / 10, False), (''Park G'' @ u_umlaut @ ''ell'', 3 / 10, False),
        (''Casa Batll'' @ o_acute, 3 / 10, False)] \<and>
   length (research_attractions ''Barcelona'' [''Culture'', ''food'', ''history'', ''sports'']) \<le> 5 \<and>
   list_all (\<lambda>e. 3 / 10 \<le> attr_score e \<and> attr_score e \<le> 1)
     (research_attractions ''Barcelona'' [''Culture'', ''food'', ''history'', ''sports''])"
proof -
  note t = research_attractions_ranked[of "''Barcelona''" "[''Culture'', ''food'', ''history'', ''sports'']"]
  have n: "map (\<lambda>e. (attr_name e, attr_score e, attr_recommended e))
       (research_attractions ''Barcelona'' [''Culture'', ''food'', ''history'', ''sports''])
     = [(''Gothic Quarter'', 1, True), (''Las Ramblas'', 9 / 10, True),
        (''Sagrada Familia'', 3 / 10, False), (''Park G'' @ u_umlaut @ ''ell'', 3 / 10, False),
        (''Casa Batll'' @ o_acute, 3 / 10, False)]"
    by code_simp
  have l: "length (research_attractions ''Barcelona'' [''Culture'', ''food'', ''history'', ''sports'']) \<le> 5"
    using t[THEN conjunct1] .
  have b: "list_all (\<lambda>e. 3 / 10 \<le> attr_score e \<and> attr_score e \<le> 1)
     (research_attractions ''Barcelona'' [''Culture'', ''food'', ''history'', ''sports''])"
    using t[THEN conjunct2, THEN conjunct2] by (simp add: list_all_iff)
  show ?thesis by (intro conjI n l b)
qed

end
